theory Spec2Isabelle
  imports Complex_Main
begin

section \<open>Data model\<close>

text \<open>
  The add-on's records are ORM rows. Each model class becomes a record holding the
  fields the verified methods read or write; a Selection field becomes a datatype; a
  Many2one that may be unset becomes an option; a recordset becomes a list in the
  order the ORM iterates it. Float fields are modelled as exact reals, text as
  \<open>string\<close>. The exceptions of \<open>odoo.exceptions\<close> are values of \<open>error\<close>,
  and a method that may raise returns \<open>error + 'a\<close>.
\<close>

datatype error = ValidationError string | UserError string | IndexError

subsection \<open>project.definition and the records its state is derived from\<close>

datatype project_state = Draft | Pricing | Planning | Processing | Done | Cancelled

datatype pricing_state = Pricing_draft | Pricing_confirmed | Pricing_approved | Pricing_cancelled

datatype planning_state =
  Planning_draft | Components_loaded | Material_planned | Work_orders_created
  | Planning_done | Planning_cancelled

datatype execution_state =
  Execution_draft | Loaded | In_progress | Execution_done | Execution_cancelled

datatype production_state =
  Mo_draft | Mo_confirmed | Mo_progress | Mo_to_close | Mo_done | Mo_cancel

record message =
  body :: string
  subtype_xmlid :: string

text \<open>
  Dates are day numbers (\<open>date.toordinal\<close>); \<open>None\<close> is the ORM's \<open>False\<close> of an
  unset field. \<open>message_ids\<close> is the chatter of \<open>mail.thread\<close>, oldest first.
\<close>

record project =
  p_id :: nat
  p_name :: string
  p_start_date :: "int option"
  p_end_date :: "int option"
  p_state :: project_state
  p_auto_update_state :: bool
  p_message_ids :: "message list"

record pricing =
  prc_project_id :: nat
  prc_state :: pricing_state

record planning_ref =
  pln_project_id :: nat
  pln_state :: planning_state

record execution =
  exe_project_id :: nat
  exe_state :: execution_state

text \<open>
  \<open>mrp.production\<close>: \<open>origin\<close> is a free-text reference (\<open>None\<close> when unset),
  \<open>bom_id\<close> the identifier of the bill of materials when one is given.
\<close>

record production =
  mo_product_id :: nat
  mo_product_qty :: real
  mo_bom_id :: "nat option"
  mo_origin :: "string option"
  mo_state :: production_state

text \<open>The tables a project's state is derived from.\<close>

record env =
  env_pricings :: "pricing list"
  env_plannings :: "planning_ref list"
  env_executions :: "execution list"
  env_productions :: "production list"

subsection \<open>Text helpers\<close>

text \<open>
  A text is a list of characters, each a code point below 256. On these, case mapping
  and whitespace are those of Python's \<open>str\<close>.

  \<open>str.lower()\<close>: the capitals A to Z and those from 192 to 222, the multiplication
  sign 215 apart, move up by 32; every other character stays.
\<close>

definition lower_char :: "char \<Rightarrow> char" where
  "lower_char c =
     (let n = of_char c :: nat
      in if (65 \<le> n \<and> n \<le> 90) \<or> (192 \<le> n \<and> n \<le> 222 \<and> n \<noteq> 215)
         then char_of (n + 32) else c)"

definition lower :: "string \<Rightarrow> string" where
  "lower s = map lower_char s"

text \<open>
  \<open>str.upper()\<close> can leave the range: the sharp s (223) becomes two letters S, the
  y with diaeresis (255) becomes code point 376 and the micro sign (181) code point
  924. Its result is therefore given as a list of code points.
\<close>

definition upper_code :: "char \<Rightarrow> nat list" where
  "upper_code c =
     (let n = of_char c :: nat
      in if (97 \<le> n \<and> n \<le> 122) \<or> (224 \<le> n \<and> n \<le> 254 \<and> n \<noteq> 247) then [n - 32]
         else if n = 223 then [83, 83]
         else if n = 255 then [376]
         else if n = 181 then [924]
         else [n])"

definition upper :: "string \<Rightarrow> nat list" where
  "upper s = concat (map upper_code s)"

definition code_points :: "string \<Rightarrow> nat list" where
  "code_points s = map of_char s"

text \<open>
  \<open>str.strip()\<close> takes away, at both ends, the characters for which
  \<open>str.isspace()\<close> holds: 9 to 13, 28 to 32, 133 and 160.
\<close>

definition is_space :: "char \<Rightarrow> bool" where
  "is_space c \<longleftrightarrow>
     c \<in> {CHR '' '', CHR 0x09, CHR 0x0A, CHR 0x0B, CHR 0x0C, CHR 0x0D,
          CHR 0x1C, CHR 0x1D, CHR 0x1E, CHR 0x1F, CHR 0x85, CHR 0xA0}"

definition strip :: "string \<Rightarrow> string" where
  "strip s = rev (dropWhile is_space (rev (dropWhile is_space s)))"

fun startswith :: "string \<Rightarrow> string \<Rightarrow> bool" where
  "startswith s [] = True"
| "startswith [] (c # pat) = False"
| "startswith (d # s) (c # pat) = (d = c \<and> startswith s pat)"

fun contains :: "string \<Rightarrow> string \<Rightarrow> bool" where
  "contains [] pat = (pat = [])"
| "contains (d # s) pat = (startswith (d # s) pat \<or> contains s pat)"

text \<open>
  The search operators \<open>like\<close> and \<open>ilike\<close> of the ORM: the field contains the
  value, case-sensitively or not. An unset field matches nothing.
\<close>

definition like :: "string option \<Rightarrow> string \<Rightarrow> bool" where
  "like field_value pat = (case field_value of None \<Rightarrow> False | Some s \<Rightarrow> contains s pat)"

definition ilike :: "string option \<Rightarrow> string \<Rightarrow> bool" where
  "ilike field_value pat =
     (case field_value of None \<Rightarrow> False | Some s \<Rightarrow> contains (lower s) (lower pat))"

subsection \<open>Writing a project\<close>

text \<open>
  The dictionary passed to \<open>create\<close> and \<open>write\<close>: a key that is absent is
  \<open>None\<close>; a date key that is present carries the new field value, itself unset
  (\<open>False\<close>) or a date.
\<close>

record project_vals =
  v_name :: "string option"
  v_start_date :: "int option option"
  v_end_date :: "int option option"
  v_state :: "project_state option"
  v_auto_update_state :: "bool option"

definition no_vals :: project_vals where
  "no_vals = \<lparr>v_name = None, v_start_date = None, v_end_date = None, v_state = None,
     v_auto_update_state = None\<rparr>"

definition check_dates :: "project \<Rightarrow> error + unit" where
  "check_dates record =
     (if p_end_date record \<noteq> None \<and> p_start_date record \<noteq> None
         \<and> the (p_end_date record) < the (p_start_date record)
      then Inl (ValidationError ''End date cannot be before start date!'')
      else Inr ())"

definition assign_vals :: "project \<Rightarrow> project_vals \<Rightarrow> project" where
  "assign_vals p vals =
     p\<lparr>p_name := (case v_name vals of None \<Rightarrow> p_name p | Some n \<Rightarrow> n),
       p_start_date := (case v_start_date vals of None \<Rightarrow> p_start_date p | Some d \<Rightarrow> d),
       p_end_date := (case v_end_date vals of None \<Rightarrow> p_end_date p | Some d \<Rightarrow> d),
       p_state := (case v_state vals of None \<Rightarrow> p_state p | Some s \<Rightarrow> s),
       p_auto_update_state :=
         (case v_auto_update_state vals of None \<Rightarrow> p_auto_update_state p | Some b \<Rightarrow> b)\<rparr>"

text \<open>
  \<open>write\<close> assigns the given fields and then runs the constraint methods whose
  \<open>@api.constrains\<close> fields are among the keys written: \<open>_check_dates\<close> runs when
  \<open>start_date\<close> or \<open>end_date\<close> is written.
\<close>

definition write_project :: "project \<Rightarrow> project_vals \<Rightarrow> error + project" where
  "write_project p vals =
     (let p' = assign_vals p vals in
      if v_start_date vals \<noteq> None \<or> v_end_date vals \<noteq> None
      then (case check_dates p' of Inl e \<Rightarrow> Inl e | Inr _ \<Rightarrow> Inr p')
      else Inr p')"

text \<open>
  \<open>create\<close>: the project code is drawn from the sequence \<open>project.definition\<close>
  when the caller gives none (or gives the placeholder), the fields not given take
  their declared defaults (\<open>start_date\<close> is today, \<open>state\<close> is draft,
  \<open>auto_update_state\<close> is on), and the constraints are run on the new record.
  \<open>new_id\<close> is the identifier the ORM allots, \<open>next_by_code\<close> what the sequence
  returns (\<open>None\<close> when there is no such sequence) and \<open>today\<close> the current day.
  The bookkeeping on \<open>res.partner\<close> that \<open>create\<close> and \<open>write\<close> do first
  touches no field of the project and is left out, as is the ORM's own check that
  required fields are set.
\<close>

definition default_project :: "nat \<Rightarrow> int \<Rightarrow> project" where
  "default_project new_id today =
     \<lparr>p_id = new_id, p_name = ''New'', p_start_date = Some today, p_end_date = None,
      p_state = Draft, p_auto_update_state = True, p_message_ids = []\<rparr>"

definition create_vals :: "string option \<Rightarrow> project_vals \<Rightarrow> project_vals" where
  "create_vals next_by_code vals =
     (if (case v_name vals of None \<Rightarrow> ''New'' | Some n \<Rightarrow> n) = ''New''
      then vals\<lparr>v_name :=
             Some (case next_by_code of None \<Rightarrow> ''New''
                   | Some n \<Rightarrow> if n = [] then ''New'' else n)\<rparr>
      else vals)"

definition create_project ::
  "nat \<Rightarrow> string option \<Rightarrow> int \<Rightarrow> project_vals \<Rightarrow> error + project" where
  "create_project new_id next_by_code today vals =
     (let record = assign_vals (default_project new_id today) (create_vals next_by_code vals)
      in case check_dates record of Inl e \<Rightarrow> Inl e | Inr _ \<Rightarrow> Inr record)"

text \<open>
  Every action runs in one database transaction: it commits when the method returns
  and rolls back to the state before the call when an exception leaves it.
\<close>

definition in_transaction :: "('s \<Rightarrow> error + 's) \<Rightarrow> 's \<Rightarrow> error option \<times> 's" where
  "in_transaction action db =
     (case action db of Inl e \<Rightarrow> (Some e, db) | Inr db' \<Rightarrow> (None, db'))"

text \<open>The invariant of the two dates: when both are set, the end is not before the start.\<close>

definition dates_ordered :: "project \<Rightarrow> bool" where
  "dates_ordered p =
     (case (p_start_date p, p_end_date p) of (Some s, Some e) \<Rightarrow> s \<le> e | _ \<Rightarrow> True)"

definition message_post :: "project \<Rightarrow> string \<Rightarrow> string \<Rightarrow> project" where
  "message_post p b st = p\<lparr>p_message_ids := p_message_ids p @ [\<lparr>body = b, subtype_xmlid = st\<rparr>]\<rparr>"

subsection \<open>The automatic state machine\<close>

definition move_to_pricing :: "project \<Rightarrow> error + project" where
  "move_to_pricing self =
     (if p_state self = Draft
      then (case write_project self (no_vals\<lparr>v_state := Some Pricing\<rparr>) of
              Inl e \<Rightarrow> Inl e
            | Inr self' \<Rightarrow> Inr (message_post self'
                ''Project automatically moved to Pricing stage (Pricing created)''
                ''mail.mt_note''))
      else Inr self)"

definition move_to_planning :: "project \<Rightarrow> error + project" where
  "move_to_planning self =
     (if p_state self \<in> {Draft, Pricing}
      then (case write_project self (no_vals\<lparr>v_state := Some Planning\<rparr>) of
              Inl e \<Rightarrow> Inl e
            | Inr self' \<Rightarrow> Inr (message_post self'
                ''Project automatically moved to Planning stage (Material Planning created)''
                ''mail.mt_note''))
      else Inr self)"

definition move_to_processing :: "project \<Rightarrow> error + project" where
  "move_to_processing self =
     (if p_state self \<in> {Draft, Pricing, Planning}
      then (case write_project self (no_vals\<lparr>v_state := Some Processing\<rparr>) of
              Inl e \<Rightarrow> Inl e
            | Inr self' \<Rightarrow> Inr (message_post self'
                ''Project automatically moved to Processing stage (Work Orders started)''
                ''mail.mt_note''))
      else Inr self)"

definition move_to_done :: "project \<Rightarrow> error + project" where
  "move_to_done self =
     (if p_state self \<noteq> Done
      then (case write_project self (no_vals\<lparr>v_state := Some Done\<rparr>) of
              Inl e \<Rightarrow> Inl e
            | Inr self' \<Rightarrow> Inr (message_post self'
                ''Project automatically marked as Done (All work orders completed)''
                ''mail.mt_comment''))
      else Inr self)"

text \<open>The four searches of \<open>_auto_update_state\<close>.\<close>

definition search_pricings :: "env \<Rightarrow> project \<Rightarrow> pricing list" where
  "search_pricings e self = filter (\<lambda>r. prc_project_id r = p_id self) (env_pricings e)"

definition search_plannings :: "env \<Rightarrow> project \<Rightarrow> planning_ref list" where
  "search_plannings e self = filter (\<lambda>r. pln_project_id r = p_id self) (env_plannings e)"

definition search_executions :: "env \<Rightarrow> project \<Rightarrow> execution list" where
  "search_executions e self = filter (\<lambda>r. exe_project_id r = p_id self) (env_executions e)"

definition search_productions :: "env \<Rightarrow> project \<Rightarrow> production list" where
  "search_productions e self = filter (\<lambda>r. ilike (mo_origin r) (p_name self)) (env_productions e)"

definition auto_update_state_method :: "env \<Rightarrow> project \<Rightarrow> error + project" where
  "auto_update_state_method e self =
     (if \<not> p_auto_update_state self then Inr self
      else if p_state self \<in> {Done, Cancelled} then Inr self
      else
        let pricings = search_pricings e self;
            plannings = search_plannings e self;
            executions = search_executions e self;
            productions = search_productions e self
        in
        if executions \<noteq> [] \<and> list_all (\<lambda>exe. exe_state exe = Execution_done) executions
           \<and> plannings \<noteq> [] \<and> list_all (\<lambda>plan. pln_state plan = Planning_done) plannings
           \<and> productions \<noteq> [] \<and> list_all (\<lambda>prod. mo_state prod = Mo_done) productions
        then move_to_done self
        else if executions \<noteq> []
           \<and> list_ex (\<lambda>exe. exe_state exe \<in> {Loaded, In_progress}) executions
        then move_to_processing self
        else if productions \<noteq> []
           \<and> list_ex (\<lambda>prod. mo_state prod \<in> {Mo_confirmed, Mo_progress, Mo_to_close}) productions
        then move_to_processing self
        else if plannings \<noteq> []
           \<and> list_ex (\<lambda>plan. pln_state plan \<in> {Work_orders_created, Planning_done}) plannings
        then (if p_state self \<notin> {Planning, Processing, Done} then move_to_planning self
              else Inr self)
        else if plannings \<noteq> [] \<and> list_ex (\<lambda>plan. pln_state plan \<noteq> Planning_draft) plannings
        then (if p_state self \<notin> {Planning, Processing, Done} then move_to_planning self
              else Inr self)
        else if pricings \<noteq> []
           \<and> list_ex (\<lambda>prc. prc_state prc \<in> {Pricing_confirmed, Pricing_approved}) pricings
        then (if p_state self = Draft then move_to_pricing self else Inr self)
        else if pricings \<noteq> [] \<and> list_ex (\<lambda>prc. prc_state prc \<noteq> Pricing_draft) pricings
        then (if p_state self = Draft then move_to_pricing self else Inr self)
        else Inr self)"

definition update_project_state :: "env \<Rightarrow> project \<Rightarrow> error + project" where
  "update_project_state e project = auto_update_state_method e project"

subsection \<open>The manual state changes\<close>

definition action_pricing :: "project \<Rightarrow> error + project" where
  "action_pricing self = write_project self (no_vals\<lparr>v_state := Some Pricing\<rparr>)"

definition action_planning :: "project \<Rightarrow> error + project" where
  "action_planning self = write_project self (no_vals\<lparr>v_state := Some Planning\<rparr>)"

definition action_processing :: "project \<Rightarrow> error + project" where
  "action_processing self = write_project self (no_vals\<lparr>v_state := Some Processing\<rparr>)"

definition action_done :: "project \<Rightarrow> error + project" where
  "action_done self = write_project self (no_vals\<lparr>v_state := Some Done\<rparr>)"

definition action_cancel :: "project \<Rightarrow> error + project" where
  "action_cancel self = write_project self (no_vals\<lparr>v_state := Some Cancelled\<rparr>)"

definition action_draft :: "project \<Rightarrow> error + project" where
  "action_draft self = write_project self (no_vals\<lparr>v_state := Some Draft\<rparr>)"

text \<open>The position of a state on the line draft, pricing, planning, processing, done.\<close>

fun state_rank :: "project_state \<Rightarrow> nat option" where
  "state_rank Draft = Some 0"
| "state_rank Pricing = Some 1"
| "state_rank Planning = Some 2"
| "state_rank Processing = Some 3"
| "state_rank Done = Some 4"
| "state_rank Cancelled = None"

definition moves_backwards :: "project_state \<Rightarrow> project_state \<Rightarrow> bool" where
  "moves_backwards old new =
     (case (state_rank old, state_rank new) of (Some i, Some j) \<Rightarrow> j < i | _ \<Rightarrow> False)"

text \<open>
  An operation keeps the order when it returns normally and the state it leaves is not
  behind the state it found.
\<close>

definition keeps_order :: "project \<Rightarrow> error + project \<Rightarrow> bool" where
  "keeps_order self r =
     (case r of Inl e \<Rightarrow> False
      | Inr self' \<Rightarrow> \<not> moves_backwards (p_state self) (p_state self'))"

subsection \<open>Products, bills of materials and plannings\<close>

text \<open>
  A product carries its stock figures and the bills of materials that produce it; a
  bill of materials lists materials, which are products again and may have bills of
  materials of their own.
\<close>

datatype product =
  Product (prod_id: nat) (prod_name: string) (default_code: "string option")
    (qty_available: real) (outgoing_qty: real) (bom_ids: "bom list")
and bom =
  Bom (bom_id: nat) (bom_line_ids: "bom_line list")
and bom_line =
  Bom_line (bl_product_id: product) (bl_product_qty: real)

record planning_component =
  pc_component_id :: product
  pc_quantity :: real
  pc_bom_id :: "bom option"

record material_requirement =
  mr_component_id :: nat
  mr_material_id :: nat
  mr_required_qty :: real
  mr_available_qty :: real
  mr_shortage_qty :: real

text \<open>
  \<open>material.production.planning\<close>. A production order is identified by its position
  in the table of production orders.
\<close>

record planning =
  pl_name :: string
  pl_quantity :: real
  pl_state :: planning_state
  pl_component_line_ids :: "planning_component list"
  pl_material_requirement_ids :: "material_requirement list"
  pl_production_order_ids :: "nat list"

subsection \<open>Floating-point arithmetic\<close>

text \<open>
  Quantities are Python floats. A finite float is a real number, and a quantity is
  given by the real number it stands for. What Python makes of two floats by \<open>+\<close>,
  \<open>-\<close>, \<open>*\<close> and \<open>/\<close>, and of a list of floats by the builtin \<open>sum\<close>, is
  a parameter of the methods that compute with quantities: the result of an operation is
  rounded, and \<open>sum\<close> keeps a plain running total up to CPython 3.11 and compensates
  the rounding errors from 3.12 on. Results that are not finite are not covered.
  Comparisons of floats, and \<open>max\<close>, are exact.
\<close>

record float_arith =
  fl_add :: "real \<Rightarrow> real \<Rightarrow> real"
  fl_sub :: "real \<Rightarrow> real \<Rightarrow> real"
  fl_mul :: "real \<Rightarrow> real \<Rightarrow> real"
  fl_div :: "real \<Rightarrow> real \<Rightarrow> real"
  fl_sum :: "real list \<Rightarrow> real"

text \<open>
  The arithmetic of CPython on its usual platforms: IEEE 754 double precision, every
  result rounded to the nearest float, a tie to the one with an even significand. A
  float has a significand of 53 bits; below two to the power -1022 the floats are two to
  the power -1074 apart. \<open>halvings\<close> and \<open>doublings\<close> find the power of two at or
  below a number. The sum is the running total.
\<close>

definition round_half_even :: "real \<Rightarrow> int" where
  "round_half_even x =
     (let f = \<lfloor>x\<rfloor>; d = x - of_int f
      in if d < 1 / 2 then f else if d > 1 / 2 then f + 1 else if even f then f else f + 1)"

fun halvings :: "nat \<Rightarrow> real \<Rightarrow> nat" where
  "halvings 0 x = 0"
| "halvings (Suc n) x = (if x < 2 then 0 else Suc (halvings n (x / 2)))"

fun doublings :: "nat \<Rightarrow> real \<Rightarrow> nat" where
  "doublings 0 x = 0"
| "doublings (Suc n) x = (if 1 \<le> x then 0 else Suc (doublings n (x * 2)))"

definition round_double :: "real \<Rightarrow> real" where
  "round_double x =
     (if x = 0 then 0
      else if 1 \<le> \<bar>x\<bar>
      then (let e = halvings 1024 \<bar>x\<bar>
            in if e \<le> 52 then of_int (round_half_even (x * 2 ^ (52 - e))) / 2 ^ (52 - e)
               else of_int (round_half_even (x / 2 ^ (e - 52))) * 2 ^ (e - 52))
      else (let e = doublings 1022 \<bar>x\<bar>
            in of_int (round_half_even (x * 2 ^ (52 + e))) / 2 ^ (52 + e)))"

definition double_arith :: float_arith where
  "double_arith =
     \<lparr>fl_add = (\<lambda>x y. round_double (x + y)),
      fl_sub = (\<lambda>x y. round_double (x - y)),
      fl_mul = (\<lambda>x y. round_double (x * y)),
      fl_div = (\<lambda>x y. round_double (x / y)),
      fl_sum = foldl (\<lambda>total x. round_double (total + x)) 0\<rparr>"

subsection \<open>Material requirement calculation\<close>

text \<open>
  The inner loop of \<open>action_material_planning\<close>, over the lines of one BOM. A
  requirement line is the dictionary of values that the method hands to \<open>write\<close>.
\<close>

fun bom_lines_loop ::
  "float_arith \<Rightarrow> planning_component \<Rightarrow> bom_line list \<Rightarrow> material_requirement list
     \<Rightarrow> material_requirement list" where
  "bom_lines_loop fa cmp [] material_lines = material_lines"
| "bom_lines_loop fa cmp (bom_line # rest) material_lines =
     (let required_qty = fl_mul fa (bl_product_qty bom_line) (pc_quantity cmp);
          product = bl_product_id bom_line;
          available_qty = fl_sub fa (qty_available product) (outgoing_qty product);
          shortage_qty = max 0 (fl_sub fa required_qty available_qty)
      in bom_lines_loop fa cmp rest
           (material_lines @
            [\<lparr>mr_component_id = prod_id (pc_component_id cmp),
              mr_material_id = prod_id (bl_product_id bom_line),
              mr_required_qty = required_qty,
              mr_available_qty = available_qty,
              mr_shortage_qty = shortage_qty\<rparr>]))"

text \<open>The outer loop, over the component lines of the planning.\<close>

fun components_loop ::
  "float_arith \<Rightarrow> planning_component list \<Rightarrow> material_requirement list
     \<Rightarrow> material_requirement list" where
  "components_loop fa [] material_lines = material_lines"
| "components_loop fa (cmp # rest) material_lines =
     (case pc_bom_id cmp of
        Some b \<Rightarrow>
          components_loop fa rest (bom_lines_loop fa cmp (bom_line_ids b) material_lines)
      | None \<Rightarrow>
          (let required_qty = pc_quantity cmp;
               product = pc_component_id cmp;
               available_qty = fl_sub fa (qty_available product) (outgoing_qty product);
               shortage_qty = max 0 (fl_sub fa required_qty available_qty)
           in components_loop fa rest
                (material_lines @
                 [\<lparr>mr_component_id = prod_id (pc_component_id cmp),
                   mr_material_id = prod_id (pc_component_id cmp),
                   mr_required_qty = required_qty,
                   mr_available_qty = available_qty,
                   mr_shortage_qty = shortage_qty\<rparr>])))"

text \<open>
  \<open>action_material_planning\<close> (the later of the two definitions in the class, which is
  the one in force): the old requirement lines are unlinked, the new ones are created by
  the write, and the state becomes \<open>material_planned\<close>. The result is the planning as
  written.
\<close>

definition action_material_planning :: "float_arith \<Rightarrow> planning \<Rightarrow> error + planning" where
  "action_material_planning fa self =
     (if pl_component_line_ids self = [] then Inl (UserError ''Please load components first!'')
      else
        let self = self\<lparr>pl_material_requirement_ids := []\<rparr>;
            material_lines = components_loop fa (pl_component_line_ids self) []
        in Inr (self\<lparr>pl_material_requirement_ids :=
                        pl_material_requirement_ids self @ material_lines,
                      pl_state := Material_planned\<rparr>))"

text \<open>
  The requirement calculation in the words of the specification: a component with a BOM
  gives one line for each line of that BOM; a component without one gives a single line
  for itself. The product and the differences are those of floats.
\<close>

definition spec_requirement ::
  "float_arith \<Rightarrow> planning_component \<Rightarrow> product \<Rightarrow> real \<Rightarrow> material_requirement" where
  "spec_requirement fa cmp material required =
     \<lparr>mr_component_id = prod_id (pc_component_id cmp),
      mr_material_id = prod_id material,
      mr_required_qty = required,
      mr_available_qty = fl_sub fa (qty_available material) (outgoing_qty material),
      mr_shortage_qty =
        max 0 (fl_sub fa required
                 (fl_sub fa (qty_available material) (outgoing_qty material)))\<rparr>"

definition spec_component_requirements ::
  "float_arith \<Rightarrow> planning_component \<Rightarrow> material_requirement list" where
  "spec_component_requirements fa cmp =
     (case pc_bom_id cmp of
        Some b \<Rightarrow>
          map (\<lambda>l. spec_requirement fa cmp (bl_product_id l)
                      (fl_mul fa (bl_product_qty l) (pc_quantity cmp)))
            (bom_line_ids b)
      | None \<Rightarrow> [spec_requirement fa cmp (pc_component_id cmp) (pc_quantity cmp)])"

subsection \<open>Work-order creation wizard\<close>

record wizard =
  wiz_planning_id :: planning
  wiz_product_id :: product
  wiz_max_quantity :: real
  wiz_quantity_to_produce :: real
  wiz_create_component_orders :: bool

text \<open>
  \<open>mrp.production.create\<close> appends the order to the table; a new order is a draft.
  The messages of the user errors are the templates, without the interpolated values.
\<close>

definition create_production :: "production list \<Rightarrow> production \<Rightarrow> production list \<times> nat" where
  "create_production table vals = (table @ [vals], length table)"

definition search_existing_productions ::
  "production list \<Rightarrow> planning \<Rightarrow> planning_component \<Rightarrow> production list" where
  "search_existing_productions table planning_id cmp =
     filter (\<lambda>r. like (mo_origin r) (pl_name planning_id)
                \<and> mo_product_id r = prod_id (pc_component_id cmp)) table"

definition component_production :: "planning \<Rightarrow> planning_component \<Rightarrow> bom \<Rightarrow> real \<Rightarrow> production" where
  "component_production planning_id cmp b component_qty =
     \<lparr>mo_product_id = prod_id (pc_component_id cmp),
      mo_product_qty = component_qty,
      mo_bom_id = Some (bom_id b),
      mo_origin = Some (pl_name planning_id @ '' - '' @ prod_name (pc_component_id cmp)),
      mo_state = Mo_draft\<rparr>"

text \<open>The loop over the component lines, threading the table and \<open>production_ids\<close>.\<close>

fun component_orders_loop ::
  "float_arith \<Rightarrow> planning \<Rightarrow> real \<Rightarrow> planning_component list \<Rightarrow> production list
     \<Rightarrow> nat list \<Rightarrow> error + production list \<times> nat list" where
  "component_orders_loop fa planning_id ratio [] table production_ids =
     Inr (table, production_ids)"
| "component_orders_loop fa planning_id ratio (cmp # rest) table production_ids =
     (case pc_bom_id cmp of
        None \<Rightarrow> component_orders_loop fa planning_id ratio rest table production_ids
      | Some b \<Rightarrow>
          (let component_qty = fl_mul fa (pc_quantity cmp) ratio;
               existing_productions = search_existing_productions table planning_id cmp;
               total_existing = fl_sum fa (map mo_product_qty existing_productions)
           in if fl_add fa total_existing component_qty > pc_quantity cmp
              then Inl (UserError
                ''Cannot create work order for %s! This would exceed planned quantity!'')
              else
                let (table', pid) =
                      create_production table
                        (component_production planning_id cmp b component_qty)
                in component_orders_loop fa planning_id ratio rest table'
                     (production_ids @ [pid])))"

text \<open>Command \<open>(4, pid)\<close> of a many-to-many write: link the record if it is not linked.\<close>

fun link_ids :: "nat list \<Rightarrow> nat list \<Rightarrow> nat list" where
  "link_ids linked [] = linked"
| "link_ids linked (pid # pids) =
     link_ids (if pid \<in> set linked then linked else linked @ [pid]) pids"

definition action_create_orders ::
  "float_arith \<Rightarrow> wizard \<Rightarrow> production list
     \<Rightarrow> error + production list \<times> planning \<times> nat list" where
  "action_create_orders fa self table =
     (if wiz_quantity_to_produce self > wiz_max_quantity self
      then Inl (UserError ''Cannot produce %s units! Maximum allowed: %s'')
      else
        let planning_id = wiz_planning_id self;
            (table, main_production) =
              create_production table
                \<lparr>mo_product_id = prod_id (wiz_product_id self),
                 mo_product_qty = wiz_quantity_to_produce self,
                 mo_bom_id = None,
                 mo_origin = Some (pl_name planning_id),
                 mo_state = Mo_draft\<rparr>;
            production_ids = [main_production];
            ratio = (if pl_quantity planning_id > 0
                     then fl_div fa (wiz_quantity_to_produce self) (pl_quantity planning_id)
                     else 1)
        in case (if wiz_create_component_orders self
                 then component_orders_loop fa planning_id ratio
                        (pl_component_line_ids planning_id) table production_ids
                 else Inr (table, production_ids)) of
             Inl e \<Rightarrow> Inl e
           | Inr (table, production_ids) \<Rightarrow>
               Inr (table,
                    planning_id\<lparr>pl_production_order_ids :=
                                   link_ids (pl_production_order_ids planning_id) production_ids,
                                 pl_state := Work_orders_created\<rparr>,
                    production_ids))"

text \<open>
  The guard in the words of the specification, with the sum, the product and the
  quotient of the real numbers: the orders already in the table whose origin contains
  the planning's name, for this component, and the test that one more order of the
  scaled quantity stays within the planned quantity. The test is made component by
  component, each against the table as the earlier components left it.
\<close>

definition spec_total_existing :: "production list \<Rightarrow> planning \<Rightarrow> planning_component \<Rightarrow> real" where
  "spec_total_existing table planning_id cmp =
     sum_list (map mo_product_qty
       (filter (\<lambda>r. like (mo_origin r) (pl_name planning_id)
                  \<and> mo_product_id r = prod_id (pc_component_id cmp)) table))"

fun spec_within_limits ::
  "planning \<Rightarrow> real \<Rightarrow> planning_component list \<Rightarrow> production list \<Rightarrow> bool" where
  "spec_within_limits planning_id ratio [] table = True"
| "spec_within_limits planning_id ratio (cmp # rest) table =
     (case pc_bom_id cmp of
        None \<Rightarrow> spec_within_limits planning_id ratio rest table
      | Some b \<Rightarrow>
          spec_total_existing table planning_id cmp + pc_quantity cmp * ratio
            \<le> pc_quantity cmp
          \<and> spec_within_limits planning_id ratio rest
              (table @ [component_production planning_id cmp b (pc_quantity cmp * ratio)]))"


definition spec_ratio :: "wizard \<Rightarrow> real" where
  "spec_ratio self =
     (if pl_quantity (wiz_planning_id self) > 0
      then wiz_quantity_to_produce self / pl_quantity (wiz_planning_id self) else 1)"




definition spec_main_order :: "wizard \<Rightarrow> production" where
  "spec_main_order self =
     \<lparr>mo_product_id = prod_id (wiz_product_id self),
      mo_product_qty = wiz_quantity_to_produce self,
      mo_bom_id = None,
      mo_origin = Some (pl_name (wiz_planning_id self)),
      mo_state = Mo_draft\<rparr>"

subsection \<open>Cost-estimation import wizard\<close>

text \<open>
  A cell value as \<open>openpyxl\<close> hands it over with \<open>values_only\<close>. A text cell
  carries, beside its characters, what \<open>float()\<close> makes of them (\<open>None\<close> when it
  raises \<open>ValueError\<close>); a number cell carries its value as \<open>float()\<close> gives it
  and its rendering by \<open>str()\<close>; \<open>Other\<close> is any other value (a date, a time, a
  duration), given by its rendering and by its truth value, which is false for a
  duration of zero. Numbers are finite, those that \<open>float()\<close> reads from a text as
  well. A row is the list of its cells from column A on,
  a worksheet the list of its rows from row 1 on, a workbook its sheets by name.
\<close>

datatype cell =
  Empty
  | Text string "real option"
  | Number real string
  | Boolean bool
  | Other string bool

type_synonym worksheet = "cell list list"

type_synonym workbook = "(string \<times> worksheet) list"

fun truthy :: "cell \<Rightarrow> bool" where
  "truthy Empty = False"
| "truthy (Text s parsed) = (s \<noteq> [])"
| "truthy (Number x rendering) = (x \<noteq> 0)"
| "truthy (Boolean b) = b"
| "truthy (Other rendering truth) = truth"

fun cell_str :: "cell \<Rightarrow> string" where
  "cell_str Empty = ''None''"
| "cell_str (Text s parsed) = s"
| "cell_str (Number x rendering) = rendering"
| "cell_str (Boolean b) = (if b then ''True'' else ''False'')"
| "cell_str (Other rendering truth) = rendering"

text \<open>\<open>float(value)\<close>; \<open>None\<close> when it raises \<open>ValueError\<close> or \<open>TypeError\<close>.\<close>

fun cell_float :: "cell \<Rightarrow> real option" where
  "cell_float Empty = None"
| "cell_float (Text s parsed) = parsed"
| "cell_float (Number x rendering) = Some x"
| "cell_float (Boolean b) = Some (if b then 1 else 0)"
| "cell_float (Other rendering truth) = None"

text \<open>
  \<open>project.product.line\<close>. The stored totals of a line are computed from quantity
  and prices and are not fields of their own here.
\<close>

record project_product_line =
  ppl_id :: nat
  ppl_sequence :: int
  ppl_product_id :: product
  ppl_quantity :: real
  ppl_weight :: real
  ppl_cost_price :: real
  ppl_sale_price :: real

text \<open>The dictionary \<open>update_vals\<close>: a price that is absent is \<open>None\<close>.\<close>

record price_vals =
  pv_cost_price :: "real option"
  pv_sale_price :: "real option"

definition write_prices :: "project_product_line \<Rightarrow> price_vals \<Rightarrow> project_product_line" where
  "write_prices l vals =
     l\<lparr>ppl_cost_price := (case pv_cost_price vals of None \<Rightarrow> ppl_cost_price l | Some c \<Rightarrow> c),
       ppl_sale_price := (case pv_sale_price vals of None \<Rightarrow> ppl_sale_price l | Some c \<Rightarrow> c)\<rparr>"

datatype estimation_state =
  Estimation_draft | Estimation_in_progress | Estimation_completed | Estimation_cancelled

text \<open>
  The wizard. \<open>excel_file\<close> is \<open>None\<close> when nothing is uploaded; otherwise it is
  what decoding and \<open>load_workbook\<close> make of the upload: the workbook, or the message
  of the exception they raise. \<open>product_line_ids\<close> are those of the wizard's project,
  \<open>estimation_state\<close> is the state of its estimation.
\<close>

record import_wizard =
  iw_excel_file :: "(string + workbook) option"
  iw_test_mode :: bool
  iw_product_line_ids :: "project_product_line list"
  iw_estimation_state :: estimation_state

subsubsection \<open>Matching a row to a product line\<close>

definition code_matches :: "string \<Rightarrow> project_product_line \<Rightarrow> bool" where
  "code_matches product_code l =
     (case default_code (ppl_product_id l) of
        None \<Rightarrow> False
      | Some c \<Rightarrow> c \<noteq> [] \<and> strip c = product_code)"

definition name_matches :: "string \<Rightarrow> project_product_line \<Rightarrow> bool" where
  "name_matches product_name l =
     (prod_name (ppl_product_id l) \<noteq> [] \<and> strip (prod_name (ppl_product_id l)) = product_name)"

definition name_matches_lower :: "string \<Rightarrow> project_product_line \<Rightarrow> bool" where
  "name_matches_lower product_name l =
     (prod_name (ppl_product_id l) \<noteq> []
      \<and> lower (strip (prod_name (ppl_product_id l))) = lower product_name)"

text \<open>
  \<open>_find_product_line\<close>; \<open>None\<close> is the \<open>False\<close> it returns when nothing matches.
  Of several matching lines the first is taken.
\<close>

definition find_product_line ::
  "project_product_line list \<Rightarrow> string \<Rightarrow> string \<Rightarrow> project_product_line option" where
  "find_product_line product_line_ids product_code product_name =
     (if product_code = [] \<and> product_name = [] then None
      else if product_code \<noteq> [] \<and> filter (code_matches product_code) product_line_ids \<noteq> []
      then Some (hd (filter (code_matches product_code) product_line_ids))
      else if product_name \<noteq> [] \<and> filter (name_matches product_name) product_line_ids \<noteq> []
      then Some (hd (filter (name_matches product_name) product_line_ids))
      else if product_name \<noteq> []
         \<and> filter (name_matches_lower product_name) product_line_ids \<noteq> []
      then Some (hd (filter (name_matches_lower product_name) product_line_ids))
      else None)"

text \<open>
  The matching in the words of the specification: exact code, then exact name, then
  name without regard to case; the first line that matches is used.
\<close>

definition spec_find_product_line ::
  "project_product_line list \<Rightarrow> string \<Rightarrow> string \<Rightarrow> project_product_line option" where
  "spec_find_product_line product_line_ids product_code product_name =
     (case (if product_code = [] then None
            else find (code_matches product_code) product_line_ids) of
        Some l \<Rightarrow> Some l
      | None \<Rightarrow>
          (if product_name = [] then None
           else case find (name_matches product_name) product_line_ids of
                  Some l \<Rightarrow> Some l
                | None \<Rightarrow> find (name_matches_lower product_name) product_line_ids))"

subsubsection \<open>Locating the header\<close>

text \<open>
  The scan of \<open>action_import_prices\<close> over the rows it is given, \<open>row_idx\<close> being the
  number of the first of them.
\<close>

fun find_header :: "cell list list \<Rightarrow> nat \<Rightarrow> nat option" where
  "find_header [] row_idx = None"
| "find_header (row # rest) row_idx =
     (if row \<noteq> []
         \<and> (if truthy (hd row) then strip (cell_str (hd row)) else []) = ''Product Code''
      then Some row_idx
      else find_header rest (Suc row_idx))"

subsubsection \<open>Importing the rows\<close>

datatype import_error =
  Product_not_found nat string string
  | Update_failed nat string string

record price_update =
  upd_product :: string
  upd_old_cost :: real
  upd_new_cost :: real
  upd_old_sale :: real
  upd_new_sale :: real

text \<open>
  The records within reach of \<open>_execute_import\<close> and the variables of its loop. The
  records are the product lines of the project, the cost estimation, of which the state
  is kept, and the chatter of the project, of which the counts that this import has
  posted are kept.
\<close>

record import_state =
  is_product_line_ids :: "project_product_line list"
  is_estimation_state :: estimation_state
  is_posted_counts :: "(nat \<times> nat \<times> nat) list"
  is_updates :: "price_update list"
  is_updated_count :: nat
  is_errors :: "import_error list"
  is_skipped_count :: nat

definition initial_state :: "import_wizard \<Rightarrow> import_state" where
  "initial_state self =
     \<lparr>is_product_line_ids = iw_product_line_ids self,
      is_estimation_state = iw_estimation_state self,
      is_posted_counts = [],
      is_updates = [], is_updated_count = 0, is_errors = [], is_skipped_count = 0\<rparr>"

definition read_price :: "cell list \<Rightarrow> nat \<Rightarrow> real option" where
  "read_price row idx =
     (if length row > idx \<and> row ! idx \<noteq> Empty then cell_float (row ! idx) else None)"

text \<open>
  The body of the loop for a row that does not end it. \<open>write_raises\<close> tells whether the
  ORM's \<open>write\<close> on the line with the given identifier raises, and with what message.
  A row of a single column has no \<open>row[1]\<close>.
\<close>

definition import_row ::
  "(nat \<Rightarrow> price_vals \<Rightarrow> string option) \<Rightarrow> nat \<Rightarrow> cell list \<Rightarrow> import_state
     \<Rightarrow> error + import_state" where
  "import_row write_raises row_idx row st =
     (let product_code = (if truthy (row ! 0) then strip (cell_str (row ! 0)) else [])
      in if length row < 2 then Inl IndexError
      else
        let product_name = (if truthy (row ! 1) then strip (cell_str (row ! 1)) else []);
            cost_price = read_price row 15;
            sale_price = read_price row 16
        in if product_code = [] \<and> product_name = []
           then Inr (st\<lparr>is_skipped_count := is_skipped_count st + 1\<rparr>)
           else
             case find_product_line (is_product_line_ids st) product_code product_name of
               None \<Rightarrow>
                 Inr (st\<lparr>is_errors :=
                           is_errors st @ [Product_not_found row_idx product_code product_name]\<rparr>)
             | Some product_line \<Rightarrow>
                 (let old_cost = ppl_cost_price product_line;
                      old_sale = ppl_sale_price product_line;
                      update_vals = \<lparr>pv_cost_price = cost_price, pv_sale_price = sale_price\<rparr>
                  in if cost_price \<noteq> None \<or> sale_price \<noteq> None
                     then
                       (case write_raises (ppl_id product_line) update_vals of
                          None \<Rightarrow>
                            Inr (st\<lparr>is_product_line_ids :=
                                      map (\<lambda>l. if ppl_id l = ppl_id product_line
                                                then write_prices l update_vals else l)
                                        (is_product_line_ids st),
                                    is_updates :=
                                      is_updates st @
                                      [\<lparr>upd_product =
                                          (if product_name \<noteq> [] then product_name
                                           else prod_name (ppl_product_id product_line)),
                                        upd_old_cost = old_cost,
                                        upd_new_cost =
                                          (case cost_price of Some c \<Rightarrow> c | None \<Rightarrow> old_cost),
                                        upd_old_sale = old_sale,
                                        upd_new_sale =
                                          (case sale_price of Some c \<Rightarrow> c | None \<Rightarrow> old_sale)\<rparr>],
                                    is_updated_count := is_updated_count st + 1\<rparr>)
                        | Some msg \<Rightarrow>
                            Inr (st\<lparr>is_errors :=
                                      is_errors st @ [Update_failed row_idx product_name msg]\<rparr>))
                     else Inr st))"

text \<open>The loop of \<open>_execute_import\<close>, with its two \<open>break\<close>s.\<close>

fun import_rows ::
  "(nat \<Rightarrow> price_vals \<Rightarrow> string option) \<Rightarrow> nat \<Rightarrow> cell list list \<Rightarrow> import_state
     \<Rightarrow> error + import_state" where
  "import_rows write_raises row_idx [] st = Inr st"
| "import_rows write_raises row_idx (row # rest) st =
     (if row = [] \<or> \<not> truthy (row ! 0) then Inr st
      else if upper (strip (cell_str (row ! 0))) = code_points ''TOTAL'' then Inr st
      else case import_row write_raises row_idx row st of
             Inl e \<Rightarrow> Inl e
           | Inr st' \<Rightarrow> import_rows write_raises (Suc row_idx) rest st')"

text \<open>
  What the loop takes as the code and the name of a row, and the rows at which it stops:
  an empty row, a first cell that Python takes for false, a first cell that reads
  \<open>TOTAL\<close> once trimmed and put in capitals.
\<close>

definition row_product_code :: "cell list \<Rightarrow> string" where
  "row_product_code row = (if truthy (row ! 0) then strip (cell_str (row ! 0)) else [])"

definition row_product_name :: "cell list \<Rightarrow> string" where
  "row_product_name row = (if truthy (row ! 1) then strip (cell_str (row ! 1)) else [])"

definition ends_data :: "cell list \<Rightarrow> bool" where
  "ends_data row \<longleftrightarrow>
     row = [] \<or> \<not> truthy (row ! 0)
     \<or> upper (strip (cell_str (row ! 0))) = code_points ''TOTAL''"

definition is_header_row :: "cell list \<Rightarrow> bool" where
  "is_header_row row \<longleftrightarrow>
     row \<noteq> [] \<and> (if truthy (hd row) then strip (cell_str (hd row)) else []) = ''Product Code''"

text \<open>
  The end of the data in the words of the specification: a row with an empty first cell
  or a first cell equal to \<open>TOTAL\<close>.
\<close>

definition spec_ends_data :: "cell list \<Rightarrow> bool" where
  "spec_ends_data row \<longleftrightarrow> row = [] \<or> hd row = Empty \<or> cell_str (hd row) = ''TOTAL''"

text \<open>All of a product line but its two prices.\<close>

definition unpriced ::
  "project_product_line \<Rightarrow> nat \<times> int \<times> product \<times> real \<times> real" where
  "unpriced l = (ppl_id l, ppl_sequence l, ppl_product_id l, ppl_quantity l, ppl_weight l)"

subsubsection \<open>The notification\<close>

text \<open>The summary text, one value for each piece that is appended to it.\<close>

datatype summary_line =
  Updated_count nat
  | Skipped_rows nat
  | Blank
  | Updated_products_heading
  | Updated_product string
  | Cost_change real real
  | Sale_change real real
  | More_products nat
  | Errors_heading nat
  | Error_line import_error
  | More_errors nat
  | Debug_information

definition update_lines :: "price_update \<Rightarrow> summary_line list" where
  "update_lines u =
     [Updated_product (upd_product u)]
     @ (if upd_new_cost u \<noteq> upd_old_cost u
        then [Cost_change (upd_old_cost u) (upd_new_cost u)] else [])
     @ (if upd_new_sale u \<noteq> upd_old_sale u
        then [Sale_change (upd_old_sale u) (upd_new_sale u)] else [])"

definition build_summary :: "import_state \<Rightarrow> summary_line list" where
  "build_summary st =
     [Updated_count (is_updated_count st)]
     @ (if is_skipped_count st > 0 then [Skipped_rows (is_skipped_count st)] else [])
     @ [Blank]
     @ (if is_updates st \<noteq> []
        then [Updated_products_heading]
             @ concat (map update_lines (take 10 (is_updates st)))
             @ (if length (is_updates st) > 10
                then [More_products (length (is_updates st) - 10)] else [])
        else [])
     @ (if is_errors st \<noteq> []
        then [Errors_heading (length (is_errors st))]
             @ map Error_line (take 5 (is_errors st))
             @ (if length (is_errors st) > 5
                then [More_errors (length (is_errors st) - 5)] else [])
        else [])
     @ (if is_updated_count st = 0 then [Debug_information] else [])"

text \<open>
  What \<open>_execute_import\<close> leaves: the product lines, the state of the estimation,
  which it writes after the loop, the three counts it then posts on the project, and
  the notification.
\<close>

record import_result =
  ir_product_line_ids :: "project_product_line list"
  ir_estimation_state :: estimation_state
  ir_posted_counts :: "nat \<times> nat \<times> nat"
  ir_title :: string
  ir_message :: "summary_line list"
  ir_type :: string

definition execute_import ::
  "(nat \<Rightarrow> price_vals \<Rightarrow> string option) \<Rightarrow> import_wizard \<Rightarrow> worksheet \<Rightarrow> nat
     \<Rightarrow> error + import_result" where
  "execute_import write_raises self ws data_start_row =
     (case import_rows write_raises data_start_row (drop (data_start_row - 1) ws)
             (initial_state self) of
        Inl e \<Rightarrow> Inl e
      | Inr st \<Rightarrow>
          (let counts = (is_updated_count st, length (is_errors st), is_skipped_count st);
               written = st\<lparr>is_estimation_state := Estimation_completed,
                           is_posted_counts := is_posted_counts st @ [counts]\<rparr>
           in Inr \<lparr>ir_product_line_ids = is_product_line_ids written,
                   ir_estimation_state = is_estimation_state written,
                   ir_posted_counts = counts,
                   ir_title =
                     (if is_updated_count st > 0 then ''Import Complete''
                      else ''Import Failed''),
                   ir_message = build_summary st,
                   ir_type =
                     (if is_updated_count st > 0 \<and> is_errors st = [] then ''success''
                      else if is_updated_count st > 0 then ''warning'' else ''danger'')\<rparr>))"

text \<open>
  \<open>action_import_prices\<close>. In test mode it shows a preview, of which only the header
  row and the first data row are kept here. Whatever is raised after the two opening
  checks is caught and raised again as a user error.
\<close>

datatype import_outcome = Preview nat nat | Imported import_result

fun error_message :: "error \<Rightarrow> string" where
  "error_message (ValidationError msg) = msg"
| "error_message (UserError msg) = msg"
| "error_message IndexError = ''tuple index out of range''"

definition import_prices_body ::
  "(nat \<Rightarrow> price_vals \<Rightarrow> string option) \<Rightarrow> import_wizard \<Rightarrow> string + workbook
     \<Rightarrow> error + import_outcome" where
  "import_prices_body write_raises self loaded =
     (case loaded of
        Inl msg \<Rightarrow> Inl (UserError msg)
      | Inr workbook \<Rightarrow>
          (case map_of workbook ''Cost Estimation'' of
             None \<Rightarrow> Inl (UserError ''Invalid Excel file! Sheet Cost Estimation not found.'')
           | Some ws \<Rightarrow>
               (case find_header (take 30 ws) 1 of
                  None \<Rightarrow> Inl (UserError ''Could not find data header row!'')
                | Some header_row_idx \<Rightarrow>
                    (let data_start_row = header_row_idx + 1
                     in if iw_test_mode self then Inr (Preview header_row_idx data_start_row)
                        else case execute_import write_raises self ws data_start_row of
                               Inl e \<Rightarrow> Inl e
                             | Inr r \<Rightarrow> Inr (Imported r)))))"

definition action_import_prices ::
  "bool \<Rightarrow> (nat \<Rightarrow> price_vals \<Rightarrow> string option) \<Rightarrow> import_wizard \<Rightarrow> error + import_outcome" where
  "action_import_prices openpyxl write_raises self =
     (case iw_excel_file self of
        None \<Rightarrow> Inl (UserError ''Please upload an Excel file!'')
      | Some loaded \<Rightarrow>
          if \<not> openpyxl
          then Inl (UserError ''Excel library not installed. Please contact administrator.'')
          else (case import_prices_body write_raises self loaded of
                  Inl e \<Rightarrow> Inl (UserError (''Error processing Excel file: '' @ error_message e))
                | Inr outcome \<Rightarrow> Inr outcome))"

subsection \<open>Automatic material issuing\<close>

text \<open>
  \<open>_auto_issue_materials\<close> works on a production order of the stock application
  through that application's own methods. The part of the database it reads is the
  state of the order, the identifiers of its raw-material moves, the moves and their
  move lines. Reading a field does not raise.
\<close>

datatype move_state =
  Move_draft | Move_waiting | Move_confirmed | Move_partially_available | Move_assigned
  | Move_done | Move_cancel

record move_line =
  ml_quantity :: real
  ml_qty_done :: real
  ml_reserved_qty :: real

record move =
  mv_state :: move_state
  mv_product_id :: product
  mv_product_uom_qty :: real
  mv_move_line_ids :: "nat list"

record stock_world =
  sw_state :: production_state
  sw_move_raw_ids :: "nat list"
  sw_move :: "nat \<Rightarrow> move"
  sw_move_line :: "nat \<Rightarrow> move_line"

text \<open>
  A computation on that database either returns a value or raises an exception (given
  by its text); either way it leaves a database behind, since what was written before
  an exception is caught stays written.
\<close>

type_synonym 'a orm = "stock_world \<Rightarrow> (string + 'a) \<times> stock_world"

definition returns :: "'a \<Rightarrow> 'a orm" where
  "returns x = (\<lambda>w. (Inr x, w))"

definition read_field :: "(stock_world \<Rightarrow> 'a) \<Rightarrow> 'a orm" where
  "read_field f = (\<lambda>w. (Inr (f w), w))"

definition and_then :: "'a orm \<Rightarrow> ('a \<Rightarrow> 'b orm) \<Rightarrow> 'b orm" where
  "and_then m f = (\<lambda>w. case m w of (Inl e, w') \<Rightarrow> (Inl e, w') | (Inr x, w') \<Rightarrow> f x w')"

definition try_except :: "'a orm \<Rightarrow> (string \<Rightarrow> 'a orm) \<Rightarrow> 'a orm" where
  "try_except m handler =
     (\<lambda>w. case m w of (Inl e, w') \<Rightarrow> handler e w' | (Inr x, w') \<Rightarrow> (Inr x, w'))"

text \<open>
  The methods of the stock application that are called, and the writes of the two
  quantity fields of a move line. Nothing is assumed of them: each may change the
  database in any way and may raise. \<open>has_quantity\<close> tells whether move lines have
  the field \<open>quantity\<close>, which depends on the version of the platform.
\<close>

record platform =
  has_quantity :: bool
  action_confirm :: "unit orm"
  action_assign :: "unit orm"
  move_action_assign :: "nat \<Rightarrow> unit orm"
  move_action_done :: "nat \<Rightarrow> unit orm"
  write_quantity :: "nat \<Rightarrow> real \<Rightarrow> unit orm"
  write_qty_done :: "nat \<Rightarrow> real \<Rightarrow> unit orm"

text \<open>
  The loop over the move lines of an assigned move that has move lines: a line that
  already carries a quantity is passed over.
\<close>

fun reserved_lines_loop :: "platform \<Rightarrow> nat list \<Rightarrow> unit orm" where
  "reserved_lines_loop orm [] = returns ()"
| "reserved_lines_loop orm (move_line # rest) =
     and_then
       (if has_quantity orm
        then and_then (read_field (\<lambda>w. ml_quantity (sw_move_line w move_line)))
               (\<lambda>quantity.
                  if quantity > 0 then returns ()
                  else write_quantity orm move_line quantity)
        else and_then (read_field (\<lambda>w. ml_qty_done (sw_move_line w move_line)))
               (\<lambda>qty_done.
                  if qty_done > 0 then returns ()
                  else and_then (read_field (\<lambda>w. ml_reserved_qty (sw_move_line w move_line)))
                         (\<lambda>reserved_qty. write_qty_done orm move_line reserved_qty)))
       (\<lambda>_. reserved_lines_loop orm rest)"

text \<open>The loop over the move lines as it stands in the other two places.\<close>

fun lines_loop :: "platform \<Rightarrow> nat list \<Rightarrow> unit orm" where
  "lines_loop orm [] = returns ()"
| "lines_loop orm (move_line # rest) =
     and_then
       (if has_quantity orm
        then and_then (read_field (\<lambda>w. ml_quantity (sw_move_line w move_line)))
               (\<lambda>reserved. write_quantity orm move_line reserved)
        else and_then (read_field (\<lambda>w. ml_reserved_qty (sw_move_line w move_line)))
               (\<lambda>reserved_qty. write_qty_done orm move_line reserved_qty))
       (\<lambda>_. lines_loop orm rest)"

definition total_qty :: "platform \<Rightarrow> stock_world \<Rightarrow> nat list \<Rightarrow> real" where
  "total_qty orm w move_line_ids =
     (if has_quantity orm
      then sum_list (map (\<lambda>l. ml_quantity (sw_move_line w l)) move_line_ids)
      else sum_list (map (\<lambda>l. ml_qty_done (sw_move_line w l)) move_line_ids))"

text \<open>The body of the \<open>try\<close> for a move that is assigned; it returns the new count.\<close>

definition issue_assigned :: "platform \<Rightarrow> nat \<Rightarrow> nat \<Rightarrow> nat orm" where
  "issue_assigned orm move issued_count =
     and_then (read_field (\<lambda>w. mv_move_line_ids (sw_move w move)))
       (\<lambda>move_line_ids.
          and_then
            (if move_line_ids \<noteq> [] then reserved_lines_loop orm move_line_ids
             else and_then (move_action_assign orm move)
                    (\<lambda>_. and_then (read_field (\<lambda>w. mv_move_line_ids (sw_move w move)))
                           (lines_loop orm)))
            (\<lambda>_. and_then (read_field (\<lambda>w. w))
                   (\<lambda>w. if mv_move_line_ids (sw_move w move) \<noteq> []
                           \<and> total_qty orm w (mv_move_line_ids (sw_move w move)) > 0
                        then and_then (move_action_done orm move)
                               (\<lambda>_. returns (issued_count + 1))
                        else returns issued_count)))"

text \<open>The body of the \<open>try\<close> for a move that is not assigned though stock suffices.\<close>

definition force_issue :: "platform \<Rightarrow> nat \<Rightarrow> nat \<Rightarrow> nat orm" where
  "force_issue orm move issued_count =
     and_then (move_action_assign orm move)
       (\<lambda>_. and_then (read_field (\<lambda>w. sw_move w move))
              (\<lambda>m. if mv_state m = Move_assigned \<and> mv_move_line_ids m \<noteq> []
                   then and_then (lines_loop orm (mv_move_line_ids m))
                          (\<lambda>_. and_then (move_action_done orm move)
                                 (\<lambda>_. returns (issued_count + 1)))
                   else returns issued_count))"

text \<open>One pass of the loop over the raw moves, inside its own \<open>try\<close>.\<close>

definition issue_move :: "platform \<Rightarrow> nat \<Rightarrow> nat \<Rightarrow> nat orm" where
  "issue_move orm move issued_count =
     try_except
       (and_then (read_field (\<lambda>w. sw_move w move))
          (\<lambda>m. if mv_state m \<in> {Move_done, Move_cancel} then returns issued_count
               else
                 let product = mv_product_id m;
                     required_qty = mv_product_uom_qty m;
                     available_qty = qty_available product
                 in and_then
                      (if mv_state m \<noteq> Move_assigned
                       then try_except (move_action_assign orm move) (\<lambda>e. returns ())
                       else returns ())
                      (\<lambda>_. and_then (read_field (\<lambda>w. mv_state (sw_move w move)))
                             (\<lambda>state.
                                if state = Move_assigned
                                then try_except (issue_assigned orm move issued_count)
                                       (\<lambda>e. returns issued_count)
                                else if available_qty \<ge> required_qty
                                then try_except (force_issue orm move issued_count)
                                       (\<lambda>e. returns issued_count)
                                else returns issued_count))))
       (\<lambda>e. returns issued_count)"

fun raw_moves_loop :: "platform \<Rightarrow> nat list \<Rightarrow> nat \<Rightarrow> nat orm" where
  "raw_moves_loop orm [] issued_count = returns issued_count"
| "raw_moves_loop orm (move # rest) issued_count =
     and_then (issue_move orm move issued_count) (raw_moves_loop orm rest)"

definition pending_raw_moves :: "stock_world \<Rightarrow> nat list" where
  "pending_raw_moves w =
     filter (\<lambda>m. mv_state (sw_move w m) \<notin> {Move_done, Move_cancel}) (sw_move_raw_ids w)"

text \<open>
  The steps before the loop: confirm a draft order, then check availability. The value
  is \<open>False\<close> when the confirmation failed and the method is to return at once.
\<close>

definition confirm_and_assign :: "platform \<Rightarrow> bool orm" where
  "confirm_and_assign orm =
     and_then (read_field sw_state)
       (\<lambda>state.
          and_then
            (if state = Mo_draft
             then try_except (and_then (action_confirm orm) (\<lambda>_. returns True))
                    (\<lambda>e. returns False)
             else returns True)
            (\<lambda>confirmed.
               if \<not> confirmed then returns False
               else and_then (read_field sw_state)
                      (\<lambda>state.
                         and_then
                           (if state \<in> {Mo_confirmed, Mo_progress, Mo_to_close}
                            then try_except (action_assign orm) (\<lambda>e. returns ())
                            else returns ())
                           (\<lambda>_. returns True))))"

definition auto_issue_materials :: "platform \<Rightarrow> (nat \<times> nat) orm" where
  "auto_issue_materials orm =
     and_then (confirm_and_assign orm)
       (\<lambda>confirmed.
          if \<not> confirmed then returns (0, 0)
          else and_then (read_field pending_raw_moves)
                 (\<lambda>raw_moves.
                    let total_count = length raw_moves
                    in if total_count = 0 then returns (0, 0)
                       else and_then (raw_moves_loop orm raw_moves 0)
                              (\<lambda>issued_count. returns (issued_count, total_count))))"

subsection \<open>Example records\<close>

definition example_project :: project where
  "example_project =
     \<lparr>p_id = 1, p_name = ''PRJ/0001'', p_start_date = Some 739000, p_end_date = Some 739030,
      p_state = Processing, p_auto_update_state = True, p_message_ids = []\<rparr>"

definition example_env :: env where
  "example_env =
     \<lparr>env_pricings = [\<lparr>prc_project_id = 1, prc_state = Pricing_approved\<rparr>],
      env_plannings = [\<lparr>pln_project_id = 1, pln_state = Planning_done\<rparr>,
                       \<lparr>pln_project_id = 2, pln_state = Planning_draft\<rparr>],
      env_executions = [\<lparr>exe_project_id = 1, exe_state = Execution_done\<rparr>],
      env_productions =
        [\<lparr>mo_product_id = 7, mo_product_qty = 5, mo_bom_id = None,
          mo_origin = Some ''prj/0001 - MPP/0003'', mo_state = Mo_done\<rparr>,
         \<lparr>mo_product_id = 8, mo_product_qty = 2, mo_bom_id = None,
          mo_origin = Some ''PRJ/0002'', mo_state = Mo_progress\<rparr>]\<rparr>"

text \<open>
  A planning of ten units with two components: a frame made from steel and bolts by a
  BOM (the bolts have a BOM of their own), and a panel bought as it is. One requirement
  line is left from an earlier calculation.
\<close>

definition steel :: product where
  "steel = Product 10 ''Steel'' (Some ''ST-1'') 100 30 []"

definition bolt :: product where
  "bolt = Product 11 ''Bolt'' None 5 0 [Bom 2 [Bom_line steel (1 / 10)]]"

definition frame_bom :: bom where
  "frame_bom = Bom 1 [Bom_line steel 2, Bom_line bolt 8]"

definition frame :: product where
  "frame = Product 20 ''Frame'' (Some ''FR-1'') 0 0 [frame_bom]"

definition panel :: product where
  "panel = Product 21 ''Panel'' None 3 1 []"

definition cabinet :: product where
  "cabinet = Product 30 ''Cabinet'' (Some ''CAB'') 0 0 []"

definition example_planning :: planning where
  "example_planning =
     \<lparr>pl_name = ''MPP/0003'', pl_quantity = 10, pl_state = Components_loaded,
      pl_component_line_ids =
        [\<lparr>pc_component_id = frame, pc_quantity = 10, pc_bom_id = Some frame_bom\<rparr>,
         \<lparr>pc_component_id = panel, pc_quantity = 4, pc_bom_id = None\<rparr>],
      pl_material_requirement_ids =
        [\<lparr>mr_component_id = 20, mr_material_id = 99, mr_required_qty = 1,
          mr_available_qty = 0, mr_shortage_qty = 1\<rparr>],
      pl_production_order_ids = []\<rparr>"

text \<open>
  A planning of five units whose component, a bracket, is planned three times and takes
  a tenth of a unit of glue each; three tenths of glue are in stock. The tenths are the
  floats that Python reads from \<open>0.1\<close>, \<open>0.3\<close> and \<open>0.6\<close>.
\<close>

definition glue :: product where
  "glue = Product 12 ''Glue'' None (round_double (3 / 10)) 0 []"

definition bracket_bom :: bom where
  "bracket_bom = Bom 3 [Bom_line glue (round_double (1 / 10))]"

definition bracket :: product where
  "bracket = Product 22 ''Bracket'' None 0 0 [bracket_bom]"

definition bracket_planning :: planning where
  "bracket_planning =
     \<lparr>pl_name = ''MPP/0004'', pl_quantity = 5, pl_state = Components_loaded,
      pl_component_line_ids =
        [\<lparr>pc_component_id = bracket, pc_quantity = 3, pc_bom_id = Some bracket_bom\<rparr>],
      pl_material_requirement_ids = [],
      pl_production_order_ids = []\<rparr>"

definition bracket_wizard :: wizard where
  "bracket_wizard =
     \<lparr>wiz_planning_id = bracket_planning, wiz_product_id = cabinet, wiz_max_quantity = 4,
      wiz_quantity_to_produce = 4, wiz_create_component_orders = True\<rparr>"

definition earlier_bracket_order :: production where
  "earlier_bracket_order =
     \<lparr>mo_product_id = 22, mo_product_qty = round_double (6 / 10), mo_bom_id = Some 3,
      mo_origin = Some ''MPP/0004 - Bracket'', mo_state = Mo_confirmed\<rparr>"



text \<open>
  The product lines of a project and three worksheets in the layout of the export: a
  title row, the header row, data rows of seventeen columns with the prices in columns
  P and Q, and the row of totals.
\<close>

definition example_lines :: "project_product_line list" where
  "example_lines =
     [\<lparr>ppl_id = 1, ppl_sequence = 10, ppl_product_id = frame, ppl_quantity = 2,
       ppl_weight = 12, ppl_cost_price = 100, ppl_sale_price = 150\<rparr>,
      \<lparr>ppl_id = 2, ppl_sequence = 20, ppl_product_id = panel, ppl_quantity = 4,
       ppl_weight = 3, ppl_cost_price = 20, ppl_sale_price = 30\<rparr>]"

definition data_row :: "cell \<Rightarrow> cell \<Rightarrow> cell \<Rightarrow> cell \<Rightarrow> cell list" where
  "data_row a b p q = [a, b] @ replicate 13 Empty @ [p, q]"

definition title_row :: "cell list" where
  "title_row = data_row (Text ''COST ESTIMATION'' None) Empty Empty Empty"

definition header_row :: "cell list" where
  "header_row =
     data_row (Text ''Product Code'' None) (Text ''Product Name'' None)
       (Text ''Cost Price'' None) (Text ''Sale Price'' None)"

definition total_row :: "cell list" where
  "total_row = data_row (Text ''TOTAL'' None) Empty (Number 500 ''500'') (Number 700 ''700'')"

definition priced_sheet :: worksheet where
  "priced_sheet =
     [title_row, header_row,
      data_row (Text ''FR-1'' None) (Text ''Frame'' None) (Number 120 ''120'') (Number 180 ''180''),
      data_row (Text ''P-9'' None) (Text '' PANEL'' None) (Text ''n/a'' None) (Number 35 ''35''),
      data_row (Text ''X1'' None) Empty (Number 1 ''1'') (Number 2 ''2''),
      total_row,
      data_row (Text ''FR-1'' None) (Text ''Frame'' None) (Number 7 ''7'') (Number 8 ''8'')]"

definition unmatched_sheet :: worksheet where
  "unmatched_sheet =
     [title_row, header_row,
      data_row (Text ''X1'' None) Empty (Number 1 ''1'') (Number 2 ''2''),
      data_row (Text ''X2'' None) Empty (Number 1 ''1'') (Number 2 ''2''),
      data_row (Text ''X3'' None) Empty (Number 1 ''1'') (Number 2 ''2''),
      data_row (Text ''X4'' None) Empty (Number 1 ''1'') (Number 2 ''2''),
      data_row (Text ''X5'' None) Empty (Number 1 ''1'') (Number 2 ''2''),
      data_row (Text ''X6'' None) Empty (Number 1 ''1'') (Number 2 ''2''),
      total_row]"

definition blank_code_sheet :: worksheet where
  "blank_code_sheet =
     [title_row, header_row,
      data_row (Text '' '' None) Empty (Number 1 ''1'') (Number 2 ''2''),
      total_row]"

definition lowercase_total_sheet :: worksheet where
  "lowercase_total_sheet =
     [title_row, header_row,
      data_row (Text ''Total'' None) Empty Empty Empty,
      data_row (Text ''FR-1'' None) (Text ''Frame'' None) (Number 120 ''120'') (Number 180 ''180''),
      total_row]"

definition zero_code_sheet :: worksheet where
  "zero_code_sheet =
     [title_row, header_row,
      data_row (Number 0 ''0'') (Text ''Frame'' None) (Number 120 ''120'') (Number 180 ''180''),
      total_row]"

definition padded_header_sheet :: worksheet where
  "padded_header_sheet =
     title_row
     # data_row (Text '' Product Code '' None) (Text ''Product Name'' None)
         (Text ''Cost Price'' None) (Text ''Sale Price'' None)
     # drop 2 priced_sheet"

definition example_import_wizard :: "worksheet \<Rightarrow> import_wizard" where
  "example_import_wizard ws =
     \<lparr>iw_excel_file = Some (Inr [(''Instructions'', []), (''Cost Estimation'', ws)]),
      iw_test_mode = False, iw_product_line_ids = example_lines,
      iw_estimation_state = Estimation_in_progress\<rparr>"

definition example_state :: import_state where
  "example_state =
     \<lparr>is_product_line_ids = example_lines,
      is_estimation_state = Estimation_in_progress,
      is_posted_counts = [],
      is_updates = [], is_updated_count = 0, is_errors = [], is_skipped_count = 0\<rparr>"

definition never_raises :: "nat \<Rightarrow> price_vals \<Rightarrow> string option" where
  "never_raises line_id vals = None"

definition priced_result :: import_result where
  "priced_result =
     \<lparr>ir_product_line_ids =
        [\<lparr>ppl_id = 1, ppl_sequence = 10, ppl_product_id = frame, ppl_quantity = 2,
          ppl_weight = 12, ppl_cost_price = 120, ppl_sale_price = 180\<rparr>,
         \<lparr>ppl_id = 2, ppl_sequence = 20, ppl_product_id = panel, ppl_quantity = 4,
          ppl_weight = 3, ppl_cost_price = 20, ppl_sale_price = 35\<rparr>],
      ir_estimation_state = Estimation_completed,
      ir_posted_counts = (2, 1, 0),
      ir_title = ''Import Complete'',
      ir_message =
        [Updated_count 2, Blank, Updated_products_heading,
         Updated_product ''Frame'', Cost_change 100 120, Sale_change 150 180,
         Updated_product ''PANEL'', Sale_change 30 35,
         Errors_heading 1, Error_line (Product_not_found 5 ''X1'' [])],
      ir_type = ''warning''\<rparr>"

definition nothing_imported :: "summary_line list \<Rightarrow> nat \<Rightarrow> import_result" where
  "nothing_imported message n =
     \<lparr>ir_product_line_ids = example_lines,
      ir_estimation_state = Estimation_completed,
      ir_posted_counts = (0, n, 0),
      ir_title = ''Import Failed'',
      ir_message = message,
      ir_type = ''danger''\<rparr>"

definition one_row_skipped :: import_result where
  "one_row_skipped =
     \<lparr>ir_product_line_ids = example_lines,
      ir_estimation_state = Estimation_completed,
      ir_posted_counts = (0, 0, 1),
      ir_title = ''Import Failed'',
      ir_message = [Updated_count 0, Skipped_rows 1, Blank, Debug_information],
      ir_type = ''danger''\<rparr>"

text \<open>
  A platform and a draft order with three raw moves: steel, of which there is enough, with
  a move line; bolts, of which there are too few; and a panel that is already issued.
  Confirming the order works, the availability check of the order raises, reserving a
  move raises when stock is short.
\<close>

definition set_move_state :: "nat \<Rightarrow> move_state \<Rightarrow> stock_world \<Rightarrow> stock_world" where
  "set_move_state k s w = w\<lparr>sw_move := (sw_move w)(k := (sw_move w k)\<lparr>mv_state := s\<rparr>)\<rparr>"

definition example_platform :: platform where
  "example_platform =
     \<lparr>has_quantity = True,
      action_confirm = (\<lambda>w. (Inr (), w\<lparr>sw_state := Mo_confirmed\<rparr>)),
      action_assign = (\<lambda>w. (Inl ''Nothing to check the availability for.'', w)),
      move_action_assign =
        (\<lambda>k w. if mv_product_uom_qty (sw_move w k) \<le> qty_available (mv_product_id (sw_move w k))
               then (Inr (), set_move_state k Move_assigned w)
               else (Inl ''Not enough stock'', w)),
      move_action_done = (\<lambda>k w. (Inr (), set_move_state k Move_done w)),
      write_quantity =
        (\<lambda>l q w. (Inr (), w\<lparr>sw_move_line := (sw_move_line w)(l := (sw_move_line w l)\<lparr>ml_quantity := q\<rparr>)\<rparr>)),
      write_qty_done =
        (\<lambda>l q w. (Inr (), w\<lparr>sw_move_line := (sw_move_line w)(l := (sw_move_line w l)\<lparr>ml_qty_done := q\<rparr>)\<rparr>))\<rparr>"

definition failing_platform :: platform where
  "failing_platform = example_platform\<lparr>action_confirm := (\<lambda>w. (Inl ''No BOM'', w))\<rparr>"

definition example_world :: stock_world where
  "example_world =
     \<lparr>sw_state = Mo_draft,
      sw_move_raw_ids = [1, 2, 3],
      sw_move =
        (\<lambda>k. if k = 1
             then \<lparr>mv_state = Move_confirmed, mv_product_id = steel, mv_product_uom_qty = 5,
                   mv_move_line_ids = [1]\<rparr>
             else if k = 2
             then \<lparr>mv_state = Move_confirmed, mv_product_id = bolt, mv_product_uom_qty = 50,
                   mv_move_line_ids = []\<rparr>
             else \<lparr>mv_state = Move_done, mv_product_id = panel, mv_product_uom_qty = 1,
                   mv_move_line_ids = []\<rparr>),
      sw_move_line = (\<lambda>l. \<lparr>ml_quantity = 5, ml_qty_done = 0, ml_reserved_qty = 5\<rparr>)\<rparr>"

section \<open>Properties of the project state machine\<close>

lemma write_state_only:
  "write_project self (no_vals\<lparr>v_state := Some s\<rparr>) = Inr (self\<lparr>p_state := s\<rparr>)"
  by (simp add: write_project_def no_vals_def assign_vals_def)

lemma moves_backwards_same: "\<not> moves_backwards s s"
  by (cases s) (simp_all add: moves_backwards_def)

lemma move_to_pricing_result:
  "move_to_pricing self =
     Inr (if p_state self = Draft
          then message_post (self\<lparr>p_state := Pricing\<rparr>)
                 ''Project automatically moved to Pricing stage (Pricing created)''
                 ''mail.mt_note''
          else self)"
  by (simp add: move_to_pricing_def write_state_only)

lemma move_to_planning_result:
  "move_to_planning self =
     Inr (if p_state self \<in> {Draft, Pricing}
          then message_post (self\<lparr>p_state := Planning\<rparr>)
                 ''Project automatically moved to Planning stage (Material Planning created)''
                 ''mail.mt_note''
          else self)"
  by (simp add: move_to_planning_def write_state_only)

lemma move_to_processing_result:
  "move_to_processing self =
     Inr (if p_state self \<in> {Draft, Pricing, Planning}
          then message_post (self\<lparr>p_state := Processing\<rparr>)
                 ''Project automatically moved to Processing stage (Work Orders started)''
                 ''mail.mt_note''
          else self)"
  by (simp add: move_to_processing_def write_state_only)

lemma move_to_done_result:
  "move_to_done self =
     Inr (if p_state self \<noteq> Done
          then message_post (self\<lparr>p_state := Done\<rparr>)
                 ''Project automatically marked as Done (All work orders completed)''
                 ''mail.mt_comment''
          else self)"
  by (simp add: move_to_done_def write_state_only)

lemma message_post_state: "p_state (message_post p b st) = p_state p"
  by (simp add: message_post_def)

lemma keeps_order_move_to_pricing: "keeps_order self (move_to_pricing self)"
  by (cases "p_state self")
     (simp_all add: move_to_pricing_result keeps_order_def moves_backwards_def
        message_post_state)

lemma keeps_order_move_to_planning: "keeps_order self (move_to_planning self)"
  by (cases "p_state self")
     (simp_all add: move_to_planning_result keeps_order_def moves_backwards_def
        message_post_state)

lemma keeps_order_move_to_processing: "keeps_order self (move_to_processing self)"
  by (cases "p_state self")
     (simp_all add: move_to_processing_result keeps_order_def moves_backwards_def
        message_post_state)

lemma keeps_order_move_to_done: "keeps_order self (move_to_done self)"
  by (cases "p_state self")
     (simp_all add: move_to_done_result keeps_order_def moves_backwards_def
        message_post_state)

lemma keeps_order_stay: "keeps_order self (Inr self)"
  by (simp add: keeps_order_def moves_backwards_same)

lemma keeps_order_if:
  "(c \<Longrightarrow> keeps_order self a) \<Longrightarrow> (\<not> c \<Longrightarrow> keeps_order self b)
     \<Longrightarrow> keeps_order self (if c then a else b)"
  by simp

lemma keeps_order_auto_update_state: "keeps_order self (auto_update_state_method e self)"
  unfolding auto_update_state_method_def Let_def
  by (intro keeps_order_if keeps_order_move_to_pricing keeps_order_move_to_planning
        keeps_order_move_to_processing keeps_order_move_to_done keeps_order_stay)

lemma example_search_productions:
  "search_productions example_env example_project =
     [\<lparr>mo_product_id = 7, mo_product_qty = 5, mo_bom_id = None,
       mo_origin = Some ''prj/0001 - MPP/0003'', mo_state = Mo_done\<rparr>]"
  by code_simp

lemma example_search_productions_other:
  "search_productions example_env (example_project\<lparr>p_name := ''PRJ/0009'', p_state := Draft\<rparr>)
     = []"
  by code_simp

text \<open>
  C1 (as stated, refuted). A draft project with automatic updates, one execution in
  state done, one planning in state done and no production order whose origin matches
  its name satisfies every condition of the claim, the last one because there is no such
  order. The machine moves it to planning, not to done.
\<close>

theorem auto_update_state_all_done_counterexample:
  "p_auto_update_state (example_project\<lparr>p_name := ''PRJ/0009'', p_state := Draft\<rparr>)
   \<and> list_all (\<lambda>exe. exe_state exe = Execution_done)
        (search_executions example_env (example_project\<lparr>p_name := ''PRJ/0009'', p_state := Draft\<rparr>))
   \<and> list_all (\<lambda>plan. pln_state plan = Planning_done)
        (search_plannings example_env (example_project\<lparr>p_name := ''PRJ/0009'', p_state := Draft\<rparr>))
   \<and> list_all (\<lambda>prod. mo_state prod = Mo_done)
        (search_productions example_env (example_project\<lparr>p_name := ''PRJ/0009'', p_state := Draft\<rparr>))
   \<and> auto_update_state_method example_env
        (example_project\<lparr>p_name := ''PRJ/0009'', p_state := Draft\<rparr>)
      = Inr (message_post (example_project\<lparr>p_name := ''PRJ/0009'', p_state := Planning\<rparr>)
          ''Project automatically moved to Planning stage (Material Planning created)''
          ''mail.mt_note'')"
  by (simp add: auto_update_state_method_def example_search_productions_other
        move_to_planning_result)
     (simp add: example_env_def example_project_def search_executions_def
        search_plannings_def search_pricings_def move_to_planning_result)

text \<open>
  C1 (amended). For a project with \<open>auto_update_state\<close> enabled whose state is neither
  done nor cancelled: if there is at least one related execution, at least one related
  planning and at least one production order whose origin matches the project name, and
  all of them are in state done, then \<open>_auto_update_state\<close> returns normally, the
  project's state is done and the completion message is posted.
\<close>

theorem auto_update_state_all_done:
  assumes "p_auto_update_state self" and "p_state self \<notin> {Done, Cancelled}"
    and "search_executions e self \<noteq> []"
    and "\<forall>exe \<in> set (search_executions e self). exe_state exe = Execution_done"
    and "search_plannings e self \<noteq> []"
    and "\<forall>plan \<in> set (search_plannings e self). pln_state plan = Planning_done"
    and "search_productions e self \<noteq> []"
    and "\<forall>prod \<in> set (search_productions e self). mo_state prod = Mo_done"
  shows "auto_update_state_method e self =
     Inr (message_post (self\<lparr>p_state := Done\<rparr>)
       ''Project automatically marked as Done (All work orders completed)''
       ''mail.mt_comment'')"
  using assms
  by (simp add: auto_update_state_method_def move_to_done_result list_all_iff)

theorem auto_update_state_all_done_witness:
  "auto_update_state_method example_env example_project =
     Inr (message_post (example_project\<lparr>p_state := Done\<rparr>)
       ''Project automatically marked as Done (All work orders completed)''
       ''mail.mt_comment'')"
proof -
  have exe: "search_executions example_env example_project =
      [\<lparr>exe_project_id = 1, exe_state = Execution_done\<rparr>]"
    by (simp add: search_executions_def example_env_def example_project_def)
  have plan: "search_plannings example_env example_project =
      [\<lparr>pln_project_id = 1, pln_state = Planning_done\<rparr>]"
    by (simp add: search_plannings_def example_env_def example_project_def)
  have "p_auto_update_state example_project" "p_state example_project \<notin> {Done, Cancelled}"
    by (simp_all add: example_project_def)
  then show ?thesis
    using auto_update_state_all_done [of example_project example_env]
    by (simp add: exe plan example_search_productions)
qed

text \<open>
  C7. For a project whose state is done or cancelled, \<open>_auto_update_state\<close> (and
  \<open>update_project_state\<close>, which calls it) returns normally with the record exactly
  as it was, whatever the related pricings, plannings, executions and production orders
  are: the state is unchanged and nothing is added to the chatter.
\<close>

theorem auto_update_state_final_state:
  assumes "p_state self = Done \<or> p_state self = Cancelled"
  shows "auto_update_state_method e self = Inr self \<and> update_project_state e self = Inr self"
  using assms by (auto simp: auto_update_state_method_def update_project_state_def)

theorem auto_update_state_final_state_witness:
  "auto_update_state_method example_env (example_project\<lparr>p_state := Cancelled\<rparr>)
     = Inr (example_project\<lparr>p_state := Cancelled\<rparr>)
   \<and> p_message_ids (example_project\<lparr>p_state := Cancelled\<rparr>) = []"
  using auto_update_state_final_state [of "example_project\<lparr>p_state := Cancelled\<rparr>" example_env]
  by (simp add: example_project_def)

text \<open>
  C6 (as stated, refuted). \<open>action_pricing\<close> is neither \<open>action_draft\<close> nor
  \<open>action_cancel\<close>, and it takes a done project back to pricing.
\<close>

theorem action_pricing_backwards_counterexample:
  "action_pricing (example_project\<lparr>p_state := Done\<rparr>)
     = Inr (example_project\<lparr>p_state := Pricing\<rparr>)
   \<and> moves_backwards Done Pricing"
  by (simp add: action_pricing_def write_state_only moves_backwards_def example_project_def)

text \<open>
  C6 (amended). The automatic state machine never moves a project's state backwards
  along draft, pricing, planning, processing, done: \<open>_auto_update_state\<close> and each of
  \<open>_move_to_pricing\<close>, \<open>_move_to_planning\<close>, \<open>_move_to_processing\<close> and
  \<open>_move_to_done\<close> return normally and leave a state that is not behind the one
  they found; the same holds of the manual \<open>action_done\<close>. The manual actions
  \<open>action_pricing\<close>, \<open>action_planning\<close> and \<open>action_processing\<close> write
  their state whatever the current one is, as \<open>action_draft\<close> and
  \<open>action_cancel\<close> do.
\<close>

theorem automatic_transitions_keep_order:
  "keeps_order self (auto_update_state_method e self)
   \<and> keeps_order self (move_to_pricing self)
   \<and> keeps_order self (move_to_planning self)
   \<and> keeps_order self (move_to_processing self)
   \<and> keeps_order self (move_to_done self)
   \<and> keeps_order self (action_done self)
   \<and> action_pricing self = Inr (self\<lparr>p_state := Pricing\<rparr>)
   \<and> action_planning self = Inr (self\<lparr>p_state := Planning\<rparr>)
   \<and> action_processing self = Inr (self\<lparr>p_state := Processing\<rparr>)
   \<and> action_draft self = Inr (self\<lparr>p_state := Draft\<rparr>)
   \<and> action_cancel self = Inr (self\<lparr>p_state := Cancelled\<rparr>)"
proof -
  have "keeps_order self (action_done self)"
    by (cases "p_state self")
       (simp_all add: action_done_def write_state_only keeps_order_def moves_backwards_def)
  then show ?thesis
    by (simp add: keeps_order_auto_update_state keeps_order_move_to_pricing
          keeps_order_move_to_planning keeps_order_move_to_processing
          keeps_order_move_to_done action_pricing_def action_planning_def
          action_processing_def action_draft_def action_cancel_def write_state_only)
qed

theorem automatic_transitions_keep_order_witness:
  "keeps_order (example_project\<lparr>p_state := Pricing\<rparr>)
     (auto_update_state_method example_env (example_project\<lparr>p_state := Pricing\<rparr>))
   \<and> keeps_order (example_project\<lparr>p_state := Pricing\<rparr>)
     (move_to_pricing (example_project\<lparr>p_state := Pricing\<rparr>))"
  using automatic_transitions_keep_order [of "example_project\<lparr>p_state := Pricing\<rparr>" example_env]
  by simp

section \<open>The date constraint\<close>

lemma check_dates_iff:
  "check_dates p =
     (if dates_ordered p then Inr ()
      else Inl (ValidationError ''End date cannot be before start date!''))"
  by (auto simp: check_dates_def dates_ordered_def split: option.splits)

lemma write_project_reversed:
  assumes "v_start_date vals \<noteq> None \<or> v_end_date vals \<noteq> None"
    and "\<not> dates_ordered (assign_vals p vals)"
  shows "write_project p vals = Inl (ValidationError ''End date cannot be before start date!'')"
  using assms by (simp add: write_project_def check_dates_iff Let_def)

lemma write_project_ordered:
  "dates_ordered (assign_vals p vals) \<Longrightarrow> write_project p vals = Inr (assign_vals p vals)"
  by (simp add: write_project_def check_dates_iff Let_def)

lemma assign_vals_no_dates:
  assumes "v_start_date vals = None" and "v_end_date vals = None"
  shows "dates_ordered (assign_vals p vals) = dates_ordered p"
  using assms by (simp add: assign_vals_def dates_ordered_def)

lemma write_project_invariant:
  assumes "dates_ordered p" and "write_project p vals = Inr p'"
  shows "dates_ordered p'"
proof (cases "v_start_date vals \<noteq> None \<or> v_end_date vals \<noteq> None")
  case True
  show ?thesis
  proof (rule ccontr)
    assume "\<not> dates_ordered p'"
    have "dates_ordered (assign_vals p vals)"
      using write_project_reversed [OF True, of p] assms(2) by auto
    then show False
      using assms(2) \<open>\<not> dates_ordered p'\<close> by (simp add: write_project_ordered)
  qed
next
  case False
  then have "dates_ordered (assign_vals p vals)"
    using assms(1) by (simp add: assign_vals_no_dates)
  then show ?thesis
    using assms(2) by (simp add: write_project_ordered)
qed

lemma create_project_result:
  "create_project i sq today vals =
     (if dates_ordered (assign_vals (default_project i today) (create_vals sq vals))
      then Inr (assign_vals (default_project i today) (create_vals sq vals))
      else Inl (ValidationError ''End date cannot be before start date!''))"
  by (simp add: create_project_def check_dates_iff Let_def)

text \<open>
  C9. The two dates of a project are kept in order. A \<open>write\<close> that touches a date
  and would leave the end date strictly before the start date raises the validation
  error, and the transaction leaves the record as it was; a \<open>write\<close> whose outcome
  has the end date on or after the start date (or a date unset) does not raise and
  stores the values; \<open>create\<close> raises the same error exactly when the new record
  would have its end date before its start date, and otherwise returns the new record.
  Hence a record that \<open>create\<close> returns has its dates in order, and \<open>write\<close>
  keeps them so.
\<close>

theorem check_dates_enforced:
  "((v_start_date vals \<noteq> None \<or> v_end_date vals \<noteq> None)
      \<and> \<not> dates_ordered (assign_vals p vals)
     \<longrightarrow> in_transaction (\<lambda>r. write_project r vals) p
          = (Some (ValidationError ''End date cannot be before start date!''), p))
   \<and> (dates_ordered (assign_vals p vals)
     \<longrightarrow> write_project p vals = Inr (assign_vals p vals))
   \<and> (dates_ordered p \<longrightarrow> (\<forall>p'. write_project p vals = Inr p' \<longrightarrow> dates_ordered p'))
   \<and> (\<not> dates_ordered (assign_vals (default_project i today) (create_vals sq vals))
     \<longrightarrow> create_project i sq today vals
          = Inl (ValidationError ''End date cannot be before start date!''))
   \<and> (dates_ordered (assign_vals (default_project i today) (create_vals sq vals))
     \<longrightarrow> create_project i sq today vals
          = Inr (assign_vals (default_project i today) (create_vals sq vals)))
   \<and> (\<forall>p'. create_project i sq today vals = Inr p' \<longrightarrow> dates_ordered p')"
proof (intro conjI impI allI)
  assume "(v_start_date vals \<noteq> None \<or> v_end_date vals \<noteq> None)
      \<and> \<not> dates_ordered (assign_vals p vals)"
  then show "in_transaction (\<lambda>r. write_project r vals) p
      = (Some (ValidationError ''End date cannot be before start date!''), p)"
    by (simp add: in_transaction_def write_project_reversed)
next
  assume "dates_ordered (assign_vals p vals)"
  then show "write_project p vals = Inr (assign_vals p vals)"
    by (rule write_project_ordered)
next
  fix p'
  assume "dates_ordered p" and "write_project p vals = Inr p'"
  then show "dates_ordered p'"
    by (rule write_project_invariant)
next
  assume "\<not> dates_ordered (assign_vals (default_project i today) (create_vals sq vals))"
  then show "create_project i sq today vals
      = Inl (ValidationError ''End date cannot be before start date!'')"
    by (simp add: create_project_result)
next
  assume "dates_ordered (assign_vals (default_project i today) (create_vals sq vals))"
  then show "create_project i sq today vals
      = Inr (assign_vals (default_project i today) (create_vals sq vals))"
    by (simp add: create_project_result)
next
  fix p'
  assume "create_project i sq today vals = Inr p'"
  then show "dates_ordered p'"
    by (simp add: create_project_result split: if_splits)
qed

theorem check_dates_enforced_witness:
  "in_transaction (\<lambda>r. write_project r (no_vals\<lparr>v_end_date := Some (Some 738999)\<rparr>))
     example_project
     = (Some (ValidationError ''End date cannot be before start date!''), example_project)
   \<and> write_project example_project (no_vals\<lparr>v_end_date := Some (Some 739000)\<rparr>)
     = Inr (example_project\<lparr>p_end_date := Some 739000\<rparr>)
   \<and> dates_ordered (example_project\<lparr>p_end_date := Some 739000\<rparr>)
   \<and> create_project 2 (Some ''PRJ/0002'') 739010 (no_vals\<lparr>v_end_date := Some (Some 739001)\<rparr>)
     = Inl (ValidationError ''End date cannot be before start date!'')
   \<and> create_project 2 (Some ''PRJ/0002'') 739010 (no_vals\<lparr>v_end_date := Some (Some 739010)\<rparr>)
     = Inr \<lparr>p_id = 2, p_name = ''PRJ/0002'', p_start_date = Some 739010,
            p_end_date = Some 739010, p_state = Draft, p_auto_update_state = True,
            p_message_ids = []\<rparr>"
  using check_dates_enforced [of "no_vals\<lparr>v_end_date := Some (Some 738999)\<rparr>" example_project
      2 739010 "Some ''PRJ/0002''"]
    check_dates_enforced [of "no_vals\<lparr>v_end_date := Some (Some 739000)\<rparr>" example_project
      2 739010 "Some ''PRJ/0002''"]
    check_dates_enforced [of "no_vals\<lparr>v_end_date := Some (Some 739001)\<rparr>" example_project
      2 739010 "Some ''PRJ/0002''"]
    check_dates_enforced [of "no_vals\<lparr>v_end_date := Some (Some 739010)\<rparr>" example_project
      2 739010 "Some ''PRJ/0002''"]
  by (simp add: no_vals_def example_project_def assign_vals_def dates_ordered_def
        default_project_def create_vals_def)

section \<open>Material requirements\<close>

lemma bom_lines_loop_eq:
  "bom_lines_loop fa cmp ls acc =
     acc @ map (\<lambda>l. spec_requirement fa cmp (bl_product_id l)
                      (fl_mul fa (bl_product_qty l) (pc_quantity cmp))) ls"
  by (induction ls arbitrary: acc) (simp_all add: Let_def spec_requirement_def)

lemma components_loop_eq:
  "components_loop fa cs acc = acc @ concat (map (spec_component_requirements fa) cs)"
proof (induction cs arbitrary: acc)
  case Nil
  show ?case by simp
next
  case (Cons c cs)
  show ?case
  proof (cases "pc_bom_id c")
    case None
    then show ?thesis
      by (simp add: Cons.IH Let_def spec_component_requirements_def spec_requirement_def)
  next
    case (Some b)
    then show ?thesis
      by (simp add: Cons.IH bom_lines_loop_eq spec_component_requirements_def)
  qed
qed

text \<open>
  With the arithmetic of doubles the requirement of three times a tenth of glue is the
  float above three tenths, \<open>0.30000000000000004\<close>, and with three tenths in stock
  the shortage is their distance, two to the power -54.
\<close>

lemma rounded_requirement_example:
  "action_material_planning double_arith bracket_planning =
     Inr (bracket_planning
       \<lparr>pl_material_requirement_ids :=
          [\<lparr>mr_component_id = 22, mr_material_id = 12,
            mr_required_qty = round_double (3 / 10) + 1 / 2 ^ 54,
            mr_available_qty = round_double (3 / 10),
            mr_shortage_qty = 1 / 2 ^ 54\<rparr>],
        pl_state := Material_planned\<rparr>)"
  by code_simp

text \<open>
  C2. For a planning with components, \<open>action_material_planning\<close> returns normally
  and leaves as requirement lines exactly, in the order of the components: for a
  component with a BOM one line per BOM line, with the BOM line's product as material,
  required quantity the BOM-line quantity times the component's planned quantity,
  available quantity the material's on-hand stock minus its outgoing stock, and shortage
  the larger of zero and required minus available; for a component without a BOM one
  line with the component itself as material and its planned quantity as required
  quantity. The product and the differences are those that Python computes on floats,
  however it rounds them. The lines depend on the BOM lines of the component's own BOM
  only, not on any BOM the materials have, and the earlier requirement lines are gone.
  The planning's state becomes \<open>material_planned\<close>.
\<close>

theorem action_material_planning_requirements:
  assumes "pl_component_line_ids self \<noteq> []"
  shows "action_material_planning fa self =
     Inr (self\<lparr>pl_material_requirement_ids :=
                  concat (map (spec_component_requirements fa) (pl_component_line_ids self)),
               pl_state := Material_planned\<rparr>)"
  using assms by (simp add: action_material_planning_def Let_def components_loop_eq)

theorem action_material_planning_requirements_witness:
  "action_material_planning double_arith example_planning =
     Inr (example_planning
       \<lparr>pl_material_requirement_ids :=
          [\<lparr>mr_component_id = 20, mr_material_id = 10, mr_required_qty = 20,
            mr_available_qty = 70, mr_shortage_qty = 0\<rparr>,
           \<lparr>mr_component_id = 20, mr_material_id = 11, mr_required_qty = 80,
            mr_available_qty = 5, mr_shortage_qty = 75\<rparr>,
           \<lparr>mr_component_id = 21, mr_material_id = 21, mr_required_qty = 4,
            mr_available_qty = 2, mr_shortage_qty = 2\<rparr>],
        pl_state := Material_planned\<rparr>)"
proof -
  have components: "pl_component_line_ids example_planning \<noteq> []"
    by (simp add: example_planning_def)
  have "concat (map (spec_component_requirements double_arith)
            (pl_component_line_ids example_planning))
      = [\<lparr>mr_component_id = 20, mr_material_id = 10, mr_required_qty = 20,
            mr_available_qty = 70, mr_shortage_qty = 0\<rparr>,
         \<lparr>mr_component_id = 20, mr_material_id = 11, mr_required_qty = 80,
            mr_available_qty = 5, mr_shortage_qty = 75\<rparr>,
         \<lparr>mr_component_id = 21, mr_material_id = 21, mr_required_qty = 4,
            mr_available_qty = 2, mr_shortage_qty = 2\<rparr>]"
    by code_simp
  with action_material_planning_requirements [OF components, of double_arith]
  show ?thesis by simp
qed

section \<open>Work-order creation\<close>



lemma action_create_orders_main_only:
  assumes "wiz_quantity_to_produce self \<le> wiz_max_quantity self"
    and "\<not> wiz_create_component_orders self"
  shows "action_create_orders fa self table =
     Inr (table @ [spec_main_order self],
          (wiz_planning_id self)
            \<lparr>pl_production_order_ids :=
               link_ids (pl_production_order_ids (wiz_planning_id self)) [length table],
             pl_state := Work_orders_created\<rparr>,
          [length table])"
  using assms
  by (simp add: action_create_orders_def Let_def create_production_def spec_main_order_def)







text \<open>
  Where the operations round, the guard compares rounded numbers. Four of the five units
  are requested, so the bracket, planned three times, is to be ordered 2.4 times, and
  0.6 of it is on order already. These real numbers stay within the three that are
  planned; Python computes \<open>3.0000000000000004\<close> from them, and the wizard raises.
\<close>

lemma rounded_guard_example:
  "spec_within_limits bracket_planning (spec_ratio bracket_wizard)
     (pl_component_line_ids bracket_planning)
     [earlier_bracket_order, spec_main_order bracket_wizard]
   \<and> action_create_orders double_arith bracket_wizard [earlier_bracket_order]
     = Inl (UserError ''Cannot create work order for %s! This would exceed planned quantity!'')"
  by code_simp




section \<open>Cost-estimation import\<close>

subsection \<open>Header and data rows\<close>

lemma find_header_step:
  "find_header (row # rest) i = (if is_header_row row then Some i else find_header rest (Suc i))"
  by (simp add: is_header_row_def)

lemma find_header_None: "find_header rows i = None \<longleftrightarrow> (\<forall>r \<in> set rows. \<not> is_header_row r)"
  by (induction rows arbitrary: i) (simp_all add: find_header_step del: find_header.simps(2))

lemma find_header_first:
  assumes "k < length rows" and "is_header_row (rows ! k)" and "\<forall>j<k. \<not> is_header_row (rows ! j)"
  shows "find_header rows i = Some (i + k)"
  using assms
proof (induction rows arbitrary: i k)
  case Nil
  then show ?case by simp
next
  case (Cons row rest)
  show ?case
  proof (cases k)
    case 0
    with Cons.prems show ?thesis by (simp add: find_header_step del: find_header.simps(2))
  next
    case (Suc m)
    with Cons.prems have "\<not> is_header_row row" by auto
    moreover have "find_header rest (Suc i) = Some (Suc i + m)"
      using Cons.prems Suc by (intro Cons.IH) auto
    ultimately show ?thesis using Suc by (simp add: find_header_step del: find_header.simps(2))
  qed
qed

lemma import_rows_step:
  "import_rows w i (row # rest) st =
     (if ends_data row then Inr st
      else case import_row w i row st of Inl e \<Rightarrow> Inl e
           | Inr st' \<Rightarrow> import_rows w (Suc i) rest st')"
  by (simp add: ends_data_def)

lemma import_rows_takeWhile:
  "import_rows w i rows st = import_rows w i (takeWhile (\<lambda>r. \<not> ends_data r) rows) st"
proof (induction rows arbitrary: i st)
  case Nil
  show ?case by simp
next
  case (Cons row rest)
  show ?case
  proof (cases "ends_data row")
    case True
    then show ?thesis by (simp add: import_rows_step del: import_rows.simps(2))
  next
    case False
    then show ?thesis
      using Cons.IH by (simp add: import_rows_step del: import_rows.simps(2) split: sum.splits)
  qed
qed

lemma execute_import_takeWhile:
  "execute_import w self ws d =
     execute_import w self (take (d - 1) ws @ takeWhile (\<lambda>r. \<not> ends_data r) (drop (d - 1) ws)) d"
proof -
  have "drop (d - 1) (take (d - 1) ws @ takeWhile (\<lambda>r. \<not> ends_data r) (drop (d - 1) ws))
      = (if d - 1 \<le> length ws then takeWhile (\<lambda>r. \<not> ends_data r) (drop (d - 1) ws) else [])"
    by (simp add: min_def)
  moreover have "d - 1 > length ws \<Longrightarrow> drop (d - 1) ws = []" by simp
  ultimately have "import_rows w d (drop (d - 1) (take (d - 1) ws @ takeWhile (\<lambda>r. \<not> ends_data r) (drop (d - 1) ws))) st
     = import_rows w d (drop (d - 1) ws) st" for st
    using import_rows_takeWhile [of w d "drop (d - 1) ws" st]
    by (cases "d - 1 \<le> length ws") simp_all
  then show ?thesis
    unfolding execute_import_def by simp
qed

lemma action_no_header:
  assumes "iw_excel_file self = Some (Inr wb)" and "map_of wb ''Cost Estimation'' = Some ws"
    and "\<forall>r \<in> set (take 30 ws). \<not> is_header_row r"
  shows "action_import_prices True w self
     = Inl (UserError ''Error processing Excel file: Could not find data header row!'')"
proof -
  have "find_header (take 30 ws) 1 = None"
    using assms(3) by (simp add: find_header_None)
  then show ?thesis
    using assms(1,2) by (simp add: action_import_prices_def import_prices_body_def)
qed

lemma action_header:
  assumes "iw_excel_file self = Some (Inr wb)" and "map_of wb ''Cost Estimation'' = Some ws"
    and "\<not> iw_test_mode self"
    and "k < 30" and "k < length ws" and "is_header_row (ws ! k)"
    and "\<forall>j<k. \<not> is_header_row (ws ! j)"
  shows "action_import_prices True w self
     = (case execute_import w self ws (k + 2) of
          Inl e \<Rightarrow> Inl (UserError (''Error processing Excel file: '' @ error_message e))
        | Inr r \<Rightarrow> Inr (Imported r))"
proof -
  have "find_header (take 30 ws) 1 = Some (1 + k)"
    using assms(4-7) by (intro find_header_first) auto
  then show ?thesis
    using assms(1-3)
    by (simp add: action_import_prices_def import_prices_body_def split: sum.splits)
qed

lemma import_row_prices:
  assumes "find_product_line (is_product_line_ids st) (row_product_code row) (row_product_name row) = Some l"
    and "row_product_code row \<noteq> [] \<or> row_product_name row \<noteq> []"
    and "16 < length row" and "cell_float (row ! 15) = Some c" and "cell_float (row ! 16) = Some s"
    and "w (ppl_id l) \<lparr>pv_cost_price = Some c, pv_sale_price = Some s\<rparr> = None"
  shows "\<exists>st'. import_row w i row st = Inr st'
     \<and> (\<forall>x \<in> set (is_product_line_ids st').
           ppl_id x = ppl_id l \<longrightarrow> ppl_cost_price x = c \<and> ppl_sale_price x = s)"
proof -
  have "row ! 15 \<noteq> Empty" "row ! 16 \<noteq> Empty"
    using assms(4,5) by auto
  then have "read_price row 15 = Some c" "read_price row 16 = Some s"
    using assms(3-5) by (simp_all add: read_price_def)
  then show ?thesis
    using assms(1,2,3,6)
    by (auto simp: import_row_def Let_def row_product_code_def row_product_name_def
          write_prices_def)
qed

subsection \<open>Matching and unmatched rows\<close>

lemma import_row_unmatched:
  assumes "2 \<le> length row"
    and "row_product_code row \<noteq> [] \<or> row_product_name row \<noteq> []"
    and "find_product_line (is_product_line_ids st) (row_product_code row) (row_product_name row)
         = None"
  shows "import_row w i row st =
     Inr (st\<lparr>is_errors := is_errors st
            @ [Product_not_found i (row_product_code row) (row_product_name row)]\<rparr>)"
  using assms by (auto simp: import_row_def Let_def row_product_code_def row_product_name_def)

lemma import_row_errors:
  "import_row w i row st = Inr st' \<Longrightarrow> \<exists>es. is_errors st' = is_errors st @ es"
  by (auto simp: import_row_def Let_def split: if_splits option.splits)

lemma import_rows_errors:
  "import_rows w i rows st = Inr st' \<Longrightarrow> \<exists>es. is_errors st' = is_errors st @ es"
proof (induction rows arbitrary: i st)
  case Nil
  then show ?case by simp
next
  case (Cons row rest)
  show ?case
  proof (cases "ends_data row")
    case True
    with Cons.prems show ?thesis by (simp add: import_rows_step del: import_rows.simps(2))
  next
    case False
    with Cons.prems obtain st1 where 1: "import_row w i row st = Inr st1"
      and 2: "import_rows w (Suc i) rest st1 = Inr st'"
      by (auto simp: import_rows_step simp del: import_rows.simps(2) split: sum.splits)
    from import_row_errors [OF 1] Cons.IH [OF 2] show ?thesis by auto
  qed
qed

lemma summary_errors:
  "e \<in> set (take 5 (is_errors st)) \<Longrightarrow> Error_line e \<in> set (build_summary st)"
  by (auto simp: build_summary_def)

lemma summary_heading:
  "is_errors st \<noteq> [] \<Longrightarrow> Errors_heading (length (is_errors st)) \<in> set (build_summary st)"
  by (auto simp: build_summary_def)

lemma summary_more:
  "5 < length (is_errors st)
   \<Longrightarrow> More_errors (length (is_errors st) - 5) \<in> set (build_summary st)"
  by (auto simp: build_summary_def)

subsection \<open>What the import leaves alone\<close>

lemma find_filter: "find P xs = (if filter P xs = [] then None else Some (hd (filter P xs)))"
  by (induction xs) simp_all

lemma find_product_line_spec:
  "find_product_line ls c n = spec_find_product_line ls c n"
  by (simp add: find_product_line_def spec_find_product_line_def find_filter)

lemma find_unpriced:
  assumes "map unpriced xs = map unpriced ys"
    and "\<And>x y. unpriced x = unpriced y \<Longrightarrow> P x = P y"
  shows "map_option unpriced (find P xs) = map_option unpriced (find P ys)"
  using assms(1)
proof (induction xs arbitrary: ys)
  case Nil
  then show ?case by simp
next
  case (Cons x xs)
  then obtain y ys' where ys: "ys = y # ys'" and xy: "unpriced x = unpriced y"
    and rest: "map unpriced xs = map unpriced ys'"
    by (cases ys) auto
  from assms(2) [OF xy] Cons.IH [OF rest] xy show ?case
    by (simp add: ys)
qed

lemma matches_unpriced:
  assumes "unpriced x = unpriced y"
  shows "code_matches c x = code_matches c y"
    and "name_matches n x = name_matches n y"
    and "name_matches_lower n x = name_matches_lower n y"
  using assms by (simp_all add: unpriced_def code_matches_def name_matches_def name_matches_lower_def)

lemma find_product_line_unpriced:
  assumes "map unpriced xs = map unpriced ys"
  shows "map_option unpriced (find_product_line xs c n)
       = map_option unpriced (find_product_line ys c n)"
proof -
  note f1 = find_unpriced [OF assms, of "code_matches c", OF matches_unpriced(1)]
  note f2 = find_unpriced [OF assms, of "name_matches n", OF matches_unpriced(2)]
  note f3 = find_unpriced [OF assms, of "name_matches_lower n", OF matches_unpriced(3)]
  show ?thesis
    unfolding find_product_line_spec spec_find_product_line_def
    using f1 f2 f3
    by (auto split: option.splits)
qed

lemma unpriced_write_prices: "unpriced (write_prices l v) = unpriced l"
  by (simp add: unpriced_def write_prices_def)

lemma import_row_unpriced:
  assumes "import_row w i row st = Inr st'"
  shows "map unpriced (is_product_line_ids st') = map unpriced (is_product_line_ids st)"
  using assms
  by (auto simp: import_row_def Let_def unpriced_write_prices split: if_splits option.splits)

lemma import_row_cost:
  assumes "import_row w i row st = Inr st'"
    and "k < length (is_product_line_ids st)"
    and "ppl_cost_price (is_product_line_ids st' ! k) \<noteq> ppl_cost_price (is_product_line_ids st ! k)"
  shows "map_option ppl_id (find_product_line (is_product_line_ids st) (row_product_code row) (row_product_name row))
       = Some (ppl_id (is_product_line_ids st ! k))
     \<and> read_price row 15 \<noteq> None"
  using assms
  by (auto simp: import_row_def Let_def row_product_code_def row_product_name_def write_prices_def
        split: if_splits option.splits)

lemma import_row_sale:
  assumes "import_row w i row st = Inr st'"
    and "k < length (is_product_line_ids st)"
    and "ppl_sale_price (is_product_line_ids st' ! k) \<noteq> ppl_sale_price (is_product_line_ids st ! k)"
  shows "map_option ppl_id (find_product_line (is_product_line_ids st) (row_product_code row) (row_product_name row))
       = Some (ppl_id (is_product_line_ids st ! k))
     \<and> read_price row 16 \<noteq> None"
  using assms
  by (auto simp: import_row_def Let_def row_product_code_def row_product_name_def write_prices_def
        split: if_splits option.splits)


lemma import_rows_unpriced:
  "import_rows w i rows st = Inr st'
   \<Longrightarrow> map unpriced (is_product_line_ids st') = map unpriced (is_product_line_ids st)"
proof (induction rows arbitrary: i st)
  case Nil
  then show ?case by simp
next
  case (Cons row rest)
  show ?case
  proof (cases "ends_data row")
    case True
    with Cons.prems show ?thesis by (simp add: import_rows_step del: import_rows.simps(2))
  next
    case False
    with Cons.prems obtain st1 where 1: "import_row w i row st = Inr st1"
      and 2: "import_rows w (Suc i) rest st1 = Inr st'"
      by (auto simp: import_rows_step simp del: import_rows.simps(2) split: sum.splits)
    from import_row_unpriced [OF 1] Cons.IH [OF 2] show ?thesis by simp
  qed
qed

lemma import_rows_price:
  assumes row_level: "\<And>i row st st' k. import_row w i row st = Inr st'
      \<Longrightarrow> k < length (is_product_line_ids st)
      \<Longrightarrow> g (is_product_line_ids st' ! k) \<noteq> g (is_product_line_ids st ! k)
      \<Longrightarrow> map_option ppl_id (find_product_line (is_product_line_ids st)
              (row_product_code row) (row_product_name row))
            = Some (ppl_id (is_product_line_ids st ! k))
          \<and> read_price row idx \<noteq> None"
    and "import_rows w i rows st = Inr st'"
    and "k < length (is_product_line_ids st)"
    and "g (is_product_line_ids st' ! k) \<noteq> g (is_product_line_ids st ! k)"
  shows "\<exists>row \<in> set (takeWhile (\<lambda>r. \<not> ends_data r) rows).
           map_option ppl_id (find_product_line (is_product_line_ids st)
              (row_product_code row) (row_product_name row))
            = Some (ppl_id (is_product_line_ids st ! k))
           \<and> read_price row idx \<noteq> None"
  using assms(2-4)
proof (induction rows arbitrary: i st)
  case Nil
  then show ?case by simp
next
  case (Cons row rest)
  show ?case
  proof (cases "ends_data row")
    case True
    with Cons.prems show ?thesis by (simp add: import_rows_step del: import_rows.simps(2))
  next
    case False
    with Cons.prems(1) obtain st1 where 1: "import_row w i row st = Inr st1"
      and 2: "import_rows w (Suc i) rest st1 = Inr st'"
      by (auto simp: import_rows_step simp del: import_rows.simps(2) split: sum.splits)
    have keys: "map unpriced (is_product_line_ids st1) = map unpriced (is_product_line_ids st)"
      by (rule import_row_unpriced [OF 1])
    then have len: "length (is_product_line_ids st1) = length (is_product_line_ids st)"
      by (rule map_eq_imp_length_eq)
    show ?thesis
    proof (cases "g (is_product_line_ids st1 ! k) = g (is_product_line_ids st ! k)")
      case False
      from row_level [OF 1 Cons.prems(2) False] \<open>\<not> ends_data row\<close> show ?thesis by auto
    next
      case True
      with Cons.prems(3) have "g (is_product_line_ids st' ! k) \<noteq> g (is_product_line_ids st1 ! k)"
        by simp
      from Cons.IH [OF 2 _ this] Cons.prems(2) len
      obtain r where r: "r \<in> set (takeWhile (\<lambda>r. \<not> ends_data r) rest)"
        and m: "map_option ppl_id (find_product_line (is_product_line_ids st1)
              (row_product_code r) (row_product_name r))
            = Some (ppl_id (is_product_line_ids st1 ! k))"
        and p: "read_price r idx \<noteq> None"
        by auto
      have id_unpriced: "ppl_id x = fst (unpriced x)" for x
        by (simp add: unpriced_def)
      have "unpriced (is_product_line_ids st1 ! k) = unpriced (is_product_line_ids st ! k)"
        using keys Cons.prems(2) len by (metis nth_map)
      then have same_id: "ppl_id (is_product_line_ids st1 ! k) = ppl_id (is_product_line_ids st ! k)"
        by (simp add: id_unpriced)
      have "map_option ppl_id (find_product_line (is_product_line_ids st1)
              (row_product_code r) (row_product_name r))
          = map_option ppl_id (find_product_line (is_product_line_ids st)
              (row_product_code r) (row_product_name r))"
        using find_product_line_unpriced [OF keys, of "row_product_code r" "row_product_name r"]
        by (cases "find_product_line (is_product_line_ids st1) (row_product_code r) (row_product_name r)";
            cases "find_product_line (is_product_line_ids st) (row_product_code r) (row_product_name r)")
           (simp_all add: id_unpriced)
      with m same_id have "map_option ppl_id (find_product_line (is_product_line_ids st)
              (row_product_code r) (row_product_name r))
            = Some (ppl_id (is_product_line_ids st ! k))"
        by simp
      with r p \<open>\<not> ends_data row\<close> show ?thesis by auto
    qed
  qed
qed

lemma import_rows_cost:
  assumes "import_rows w i rows st = Inr st'"
    and "k < length (is_product_line_ids st)"
    and "ppl_cost_price (is_product_line_ids st' ! k)
         \<noteq> ppl_cost_price (is_product_line_ids st ! k)"
  shows "\<exists>row \<in> set (takeWhile (\<lambda>r. \<not> ends_data r) rows).
           map_option ppl_id (find_product_line (is_product_line_ids st)
              (row_product_code row) (row_product_name row))
            = Some (ppl_id (is_product_line_ids st ! k))
           \<and> read_price row 15 \<noteq> None"
  by (rule import_rows_price [where g = ppl_cost_price and idx = 15, OF _ assms])
     (rule import_row_cost)

lemma import_rows_sale:
  assumes "import_rows w i rows st = Inr st'"
    and "k < length (is_product_line_ids st)"
    and "ppl_sale_price (is_product_line_ids st' ! k)
         \<noteq> ppl_sale_price (is_product_line_ids st ! k)"
  shows "\<exists>row \<in> set (takeWhile (\<lambda>r. \<not> ends_data r) rows).
           map_option ppl_id (find_product_line (is_product_line_ids st)
              (row_product_code row) (row_product_name row))
            = Some (ppl_id (is_product_line_ids st ! k))
           \<and> read_price row 16 \<noteq> None"
  by (rule import_rows_price [where g = ppl_sale_price and idx = 16, OF _ assms])
     (rule import_row_sale)

subsection \<open>Further facts about the loop\<close>

lemma initial_state_simps [simp]:
  "is_product_line_ids (initial_state self) = iw_product_line_ids self"
  "is_estimation_state (initial_state self) = iw_estimation_state self"
  "is_posted_counts (initial_state self) = []"
  "is_updates (initial_state self) = []"
  "is_updated_count (initial_state self) = 0"
  "is_errors (initial_state self) = []"
  "is_skipped_count (initial_state self) = 0"
  by (simp_all add: initial_state_def)

lemma example_state_simps [simp]:
  "is_product_line_ids example_state = example_lines"
  "is_estimation_state example_state = Estimation_in_progress"
  "is_posted_counts example_state = []"
  "is_updates example_state = []"
  "is_updated_count example_state = 0"
  "is_errors example_state = []"
  "is_skipped_count example_state = 0"
  by (simp_all add: example_state_def)

lemma line_eqI:
  fixes x y :: project_product_line
  assumes "unpriced x = unpriced y" and "ppl_cost_price x = ppl_cost_price y"
    and "ppl_sale_price x = ppl_sale_price y"
  shows "x = y"
  using assms by (cases x; cases y) (simp add: unpriced_def)

lemma execute_import_state:
  assumes "execute_import w self ws d = Inr r"
  shows "\<exists>st. import_rows w d (drop (d - 1) ws)
             (initial_state self) = Inr st
           \<and> ir_product_line_ids r = is_product_line_ids st
           \<and> ir_message r = build_summary st"
  using assms by (auto simp: execute_import_def Let_def split: sum.splits)

lemma import_row_length: "import_row w i row st = Inr st' \<Longrightarrow> 2 \<le> length row"
  by (auto simp: import_row_def Let_def split: if_splits)

lemma find_product_line_None_unpriced:
  assumes "map unpriced xs = map unpriced ys"
  shows "find_product_line xs c n = None \<longleftrightarrow> find_product_line ys c n = None"
  using find_product_line_unpriced [OF assms, of c n]
  by (cases "find_product_line xs c n"; cases "find_product_line ys c n") simp_all

lemma import_rows_unmatched:
  assumes "import_rows w i rows st = Inr st'"
    and "k < length (takeWhile (\<lambda>r. \<not> ends_data r) rows)"
    and "row_product_code (rows ! k) \<noteq> [] \<or> row_product_name (rows ! k) \<noteq> []"
    and "find_product_line (is_product_line_ids st) (row_product_code (rows ! k))
           (row_product_name (rows ! k)) = None"
  shows "Product_not_found (i + k) (row_product_code (rows ! k)) (row_product_name (rows ! k))
           \<in> set (is_errors st')"
  using assms
proof (induction rows arbitrary: i st k)
  case Nil
  then show ?case by simp
next
  case (Cons row rest)
  from Cons.prems(2) have live: "\<not> ends_data row"
    by (cases "ends_data row") simp_all
  with Cons.prems(1) obtain st1 where 1: "import_row w i row st = Inr st1"
    and 2: "import_rows w (Suc i) rest st1 = Inr st'"
    by (auto simp: import_rows_step simp del: import_rows.simps(2) split: sum.splits)
  show ?case
  proof (cases k)
    case 0
    with Cons.prems(3,4) import_row_length [OF 1]
    have "import_row w i row st = Inr (st\<lparr>is_errors := is_errors st
            @ [Product_not_found i (row_product_code row) (row_product_name row)]\<rparr>)"
      by (intro import_row_unmatched) simp_all
    with 1 have "is_errors st1 = is_errors st
            @ [Product_not_found i (row_product_code row) (row_product_name row)]"
      by auto
    with import_rows_errors [OF 2] 0 show ?thesis by auto
  next
    case (Suc m)
    have keys: "map unpriced (is_product_line_ids st1) = map unpriced (is_product_line_ids st)"
      by (rule import_row_unpriced [OF 1])
    have "Product_not_found (Suc i + m) (row_product_code (rest ! m)) (row_product_name (rest ! m))
           \<in> set (is_errors st')"
    proof (rule Cons.IH [OF 2])
      show "m < length (takeWhile (\<lambda>r. \<not> ends_data r) rest)"
        using Cons.prems(2) live Suc by simp
      show "row_product_code (rest ! m) \<noteq> [] \<or> row_product_name (rest ! m) \<noteq> []"
        using Cons.prems(3) Suc by simp
      show "find_product_line (is_product_line_ids st1) (row_product_code (rest ! m))
           (row_product_name (rest ! m)) = None"
        using Cons.prems(4) Suc find_product_line_None_unpriced [OF keys] by simp
    qed
    with Suc show ?thesis by simp
  qed
qed

lemma spec_ends_data_ends: "spec_ends_data row \<Longrightarrow> ends_data row"
proof -
  have total: "upper (strip ''TOTAL'') = code_points ''TOTAL''" by code_simp
  assume a: "spec_ends_data row"
  show ?thesis
  proof (cases "row = [] \<or> \<not> truthy (row ! 0)")
    case True
    then show ?thesis by (auto simp: ends_data_def)
  next
    case False
    then have "hd row = row ! 0" by (simp add: hd_conv_nth)
    with a False have "cell_str (row ! 0) = ''TOTAL''"
      by (auto simp: spec_ends_data_def)
    with total show ?thesis by (simp add: ends_data_def)
  qed
qed

lemma priced_import:
  "execute_import never_raises (example_import_wizard priced_sheet) priced_sheet 3 = Inr priced_result"
  by code_simp

subsection \<open>Letters and blanks beyond ASCII\<close>

text \<open>
  A project line whose product is named CAFE in capitals, the E with an acute accent
  (code point 201), is found by a row that names it in small letters (the e with an
  acute accent is 233), by the third strategy. A first cell that reads \<open>TOTAL\<close>
  followed by a no-break space (160), or \<open>total\<close> after a next-line character
  (133), ends the data, and so does a duration of zero; a time of day, midnight
  included, is true for Python and does not.
\<close>

lemma accented_name_example:
  "find_product_line
     [\<lparr>ppl_id = 7, ppl_sequence = 10,
       ppl_product_id = Product 40 (''CAF'' @ [CHR 0xC9]) None 0 0 [],
       ppl_quantity = 1, ppl_weight = 0, ppl_cost_price = 1, ppl_sale_price = 2\<rparr>]
     ''C-40'' (''caf'' @ [CHR 0xE9])
   = Some \<lparr>ppl_id = 7, ppl_sequence = 10,
       ppl_product_id = Product 40 (''CAF'' @ [CHR 0xC9]) None 0 0 [],
       ppl_quantity = 1, ppl_weight = 0, ppl_cost_price = 1, ppl_sale_price = 2\<rparr>"
  by code_simp

lemma end_of_data_examples:
  "ends_data [Text (''TOTAL'' @ [CHR 0xA0]) None]
   \<and> ends_data [Text ([CHR 0x85] @ ''total'') None]
   \<and> ends_data [Other ''0:00:00'' False]
   \<and> \<not> ends_data [Other ''00:00:00'' True]"
  by code_simp

subsection \<open>The claims about the import\<close>

text \<open>
  C4 (as stated, refuted). Six rows of the first sheet match no product line. The
  notification lists the first five as error lines and says that there is one more; the
  sixth row, with code \<open>X6\<close>, has no error line of its own. In the second sheet the
  row after the header has a blank for a code and no name: it does not end the data and
  matches no product line, yet the notification has no error line at all, only the count
  of one skipped row.
\<close>

theorem unmatched_row_not_listed_counterexample:
  "action_import_prices True never_raises (example_import_wizard unmatched_sheet)
     = Inr (Imported (nothing_imported
         [Updated_count 0, Blank, Errors_heading 6,
          Error_line (Product_not_found 3 ''X1'' []),
          Error_line (Product_not_found 4 ''X2'' []),
          Error_line (Product_not_found 5 ''X3'' []),
          Error_line (Product_not_found 6 ''X4'' []),
          Error_line (Product_not_found 7 ''X5'' []),
          More_errors 1, Debug_information] 6))
   \<and> row_product_code (unmatched_sheet ! 7) = ''X6''
   \<and> find_product_line example_lines ''X6'' [] = None
   \<and> action_import_prices True never_raises (example_import_wizard blank_code_sheet)
     = Inr (Imported one_row_skipped)
   \<and> \<not> ends_data (blank_code_sheet ! 2)
   \<and> find_product_line example_lines (row_product_code (blank_code_sheet ! 2))
        (row_product_name (blank_code_sheet ! 2)) = None"
  by code_simp

text \<open>
  C4 (amended). A row is matched to a product line by exact product code, then by exact
  product name, then by product name without regard to case (codes and names trimmed);
  the first strategy that matches wins and the first matching line is used. A row that
  has a code or a name and matches no product line is skipped without a write to any
  record (the product lines, the estimation and the messages on the project stay as they
  were; only the list of errors grows) and is recorded as an error: whatever rows came
  before it, the error is in the list of errors when the import ends, the number of
  errors is posted and heads the errors in the notification, and the notification lists
  the first five errors as error lines and counts the others. A row with neither a code
  nor a name is skipped without a write to any record as well, and is counted as skipped
  instead.
\<close>

theorem unmatched_rows_reported:
  "find_product_line ls c n = spec_find_product_line ls c n
   \<and> (2 \<le> length row \<and> (row_product_code row \<noteq> [] \<or> row_product_name row \<noteq> [])
        \<and> find_product_line (is_product_line_ids st) (row_product_code row)
             (row_product_name row) = None
      \<longrightarrow> import_row w i row st =
            Inr (st\<lparr>is_errors := is_errors st
                   @ [Product_not_found i (row_product_code row) (row_product_name row)]\<rparr>))
   \<and> (2 \<le> length row \<and> row_product_code row = [] \<and> row_product_name row = []
      \<longrightarrow> import_row w i row st = Inr (st\<lparr>is_skipped_count := is_skipped_count st + 1\<rparr>))
   \<and> (execute_import w self ws d = Inr r
        \<and> k < length (takeWhile (\<lambda>r. \<not> ends_data r) (drop (d - 1) ws))
        \<and> (row_product_code (drop (d - 1) ws ! k) \<noteq> []
            \<or> row_product_name (drop (d - 1) ws ! k) \<noteq> [])
        \<and> find_product_line (iw_product_line_ids self) (row_product_code (drop (d - 1) ws ! k))
             (row_product_name (drop (d - 1) ws ! k)) = None
      \<longrightarrow> (\<exists>final. ir_message r = build_summary final
            \<and> ir_posted_counts r
                = (is_updated_count final, length (is_errors final), is_skipped_count final)
            \<and> Product_not_found (d + k) (row_product_code (drop (d - 1) ws ! k))
                 (row_product_name (drop (d - 1) ws ! k)) \<in> set (is_errors final)))
   \<and> (e \<in> set (take 5 (is_errors final)) \<longrightarrow> Error_line e \<in> set (build_summary final))
   \<and> (is_errors final \<noteq> []
      \<longrightarrow> Errors_heading (length (is_errors final)) \<in> set (build_summary final))
   \<and> (5 < length (is_errors final)
      \<longrightarrow> More_errors (length (is_errors final) - 5) \<in> set (build_summary final))"
proof (intro conjI impI)
  show "find_product_line ls c n = spec_find_product_line ls c n"
    by (rule find_product_line_spec)
next
  assume "2 \<le> length row \<and> (row_product_code row \<noteq> [] \<or> row_product_name row \<noteq> [])
        \<and> find_product_line (is_product_line_ids st) (row_product_code row)
             (row_product_name row) = None"
  then show "import_row w i row st =
            Inr (st\<lparr>is_errors := is_errors st
                   @ [Product_not_found i (row_product_code row) (row_product_name row)]\<rparr>)"
    by (intro import_row_unmatched) simp_all
next
  assume "2 \<le> length row \<and> row_product_code row = [] \<and> row_product_name row = []"
  then show "import_row w i row st = Inr (st\<lparr>is_skipped_count := is_skipped_count st + 1\<rparr>)"
    by (simp add: import_row_def Let_def row_product_code_def row_product_name_def)
next
  let ?rows = "drop (d - 1) ws"
  let ?init = "(initial_state self)"
  assume a: "execute_import w self ws d = Inr r
        \<and> k < length (takeWhile (\<lambda>r. \<not> ends_data r) ?rows)
        \<and> (row_product_code (?rows ! k) \<noteq> [] \<or> row_product_name (?rows ! k) \<noteq> [])
        \<and> find_product_line (iw_product_line_ids self) (row_product_code (?rows ! k))
             (row_product_name (?rows ! k)) = None"
  then obtain final where run: "import_rows w d ?rows ?init = Inr final"
    and r: "r = \<lparr>ir_product_line_ids = is_product_line_ids final,
               ir_estimation_state = Estimation_completed,
               ir_posted_counts =
                 (is_updated_count final, length (is_errors final), is_skipped_count final),
               ir_title =
                 (if is_updated_count final > 0 then ''Import Complete'' else ''Import Failed''),
               ir_message = build_summary final,
               ir_type =
                 (if is_updated_count final > 0 \<and> is_errors final = [] then ''success''
                  else if is_updated_count final > 0 then ''warning'' else ''danger'')\<rparr>"
    by (auto simp: execute_import_def Let_def split: sum.splits)
  have "Product_not_found (d + k) (row_product_code (?rows ! k)) (row_product_name (?rows ! k))
      \<in> set (is_errors final)"
    using a by (intro import_rows_unmatched [OF run]) simp_all
  with r show "\<exists>final. ir_message r = build_summary final
            \<and> ir_posted_counts r
                = (is_updated_count final, length (is_errors final), is_skipped_count final)
            \<and> Product_not_found (d + k) (row_product_code (?rows ! k))
                 (row_product_name (?rows ! k)) \<in> set (is_errors final)"
    by (intro exI [of _ final]) simp
next
  assume "e \<in> set (take 5 (is_errors final))"
  then show "Error_line e \<in> set (build_summary final)" by (rule summary_errors)
next
  assume "is_errors final \<noteq> []"
  then show "Errors_heading (length (is_errors final)) \<in> set (build_summary final)"
    by (rule summary_heading)
next
  assume "5 < length (is_errors final)"
  then show "More_errors (length (is_errors final) - 5) \<in> set (build_summary final)"
    by (rule summary_more)
qed

theorem unmatched_rows_reported_witness:
  "spec_find_product_line example_lines ''P-9'' ''PANEL'' = Some (example_lines ! 1)
   \<and> import_row never_raises 3 (unmatched_sheet ! 2)
        example_state
      = Inr (example_state\<lparr>is_errors := [Product_not_found 3 ''X1'' []]\<rparr>)
   \<and> import_row never_raises 3 (blank_code_sheet ! 2) example_state
      = Inr (example_state\<lparr>is_skipped_count := 1\<rparr>)
   \<and> (\<exists>final. ir_message (nothing_imported
          [Updated_count 0, Blank, Errors_heading 6,
           Error_line (Product_not_found 3 ''X1'' []),
           Error_line (Product_not_found 4 ''X2'' []),
           Error_line (Product_not_found 5 ''X3'' []),
           Error_line (Product_not_found 6 ''X4'' []),
           Error_line (Product_not_found 7 ''X5'' []),
           More_errors 1, Debug_information] 6) = build_summary final
        \<and> Product_not_found 8 ''X6'' [] \<in> set (is_errors final))
   \<and> Error_line (Product_not_found 3 ''X1'' [])
        \<in> set (build_summary
             (example_state\<lparr>is_errors := [Product_not_found 3 ''X1'' []]\<rparr>))"
proof -
  let ?r = "nothing_imported
          [Updated_count 0, Blank, Errors_heading 6,
           Error_line (Product_not_found 3 ''X1'' []),
           Error_line (Product_not_found 4 ''X2'' []),
           Error_line (Product_not_found 5 ''X3'' []),
           Error_line (Product_not_found 6 ''X4'' []),
           Error_line (Product_not_found 7 ''X5'' []),
           More_errors 1, Debug_information] 6"
  let ?init = "example_state"
  have 1: "find_product_line example_lines ''P-9'' ''PANEL'' = Some (example_lines ! 1)"
    by code_simp
  have row: "2 \<le> length (unmatched_sheet ! 2)"
      "row_product_code (unmatched_sheet ! 2) = ''X1''"
      "row_product_name (unmatched_sheet ! 2) = []"
      "find_product_line example_lines ''X1'' [] = None"
    by code_simp+
  have run: "execute_import never_raises (example_import_wizard unmatched_sheet) unmatched_sheet 3
      = Inr ?r"
    by code_simp
  have last: "5 < length (takeWhile (\<lambda>r. \<not> ends_data r) (drop (3 - 1) unmatched_sheet))"
      "row_product_code (drop (3 - 1) unmatched_sheet ! 5) = ''X6''"
      "row_product_name (drop (3 - 1) unmatched_sheet ! 5) = []"
      "find_product_line example_lines ''X6'' [] = None"
    by code_simp+
  have lines: "iw_product_line_ids (example_import_wizard unmatched_sheet) = example_lines"
    by (simp add: example_import_wizard_def)
  have a: "spec_find_product_line example_lines ''P-9'' ''PANEL'' = Some (example_lines ! 1)"
    using unmatched_rows_reported [where ls = example_lines and c = "''P-9''" and n = "''PANEL''",
        THEN conjunct1] 1
    by simp
  have b: "import_row never_raises 3 (unmatched_sheet ! 2) ?init
      = Inr (example_state\<lparr>is_errors := [Product_not_found 3 ''X1'' []]\<rparr>)"
    using unmatched_rows_reported [where row = "unmatched_sheet ! 2" and st = ?init
        and w = never_raises and i = 3, THEN conjunct2, THEN conjunct1] row
    by simp
  have c: "\<exists>final. ir_message ?r = build_summary final
        \<and> Product_not_found 8 ''X6'' [] \<in> set (is_errors final)"
    using unmatched_rows_reported [where self = "example_import_wizard unmatched_sheet"
        and ws = unmatched_sheet and d = 3 and k = 5 and w = never_raises and r = ?r,
        THEN conjunct2, THEN conjunct2, THEN conjunct2, THEN conjunct1] run last lines
    by auto
  have d: "Error_line (Product_not_found 3 ''X1'' [])
        \<in> set (build_summary
             (example_state\<lparr>is_errors := [Product_not_found 3 ''X1'' []]\<rparr>))"
    using unmatched_rows_reported [where e = "Product_not_found 3 ''X1'' []"
        and final = "(example_state\<lparr>is_errors := [Product_not_found 3 ''X1'' []]\<rparr>)",
        THEN conjunct2, THEN conjunct2, THEN conjunct2, THEN conjunct2, THEN conjunct1]
    by simp
  have blank: "2 \<le> length (blank_code_sheet ! 2)"
      "row_product_code (blank_code_sheet ! 2) = []"
      "row_product_name (blank_code_sheet ! 2) = []"
    by code_simp+
  have e: "import_row never_raises 3 (blank_code_sheet ! 2) ?init
      = Inr (example_state\<lparr>is_skipped_count := 1\<rparr>)"
    using unmatched_rows_reported [where row = "blank_code_sheet ! 2" and st = ?init
        and w = never_raises and i = 3, THEN conjunct2, THEN conjunct2, THEN conjunct1] blank
    by simp
  from a b c d e show ?thesis by blast
qed

text \<open>
  C5 (as stated, refuted). The first cell of the row after the header reads \<open>Total\<close>:
  it is neither empty nor equal to \<open>TOTAL\<close>, yet the import stops there and leaves
  the row of the frame, which follows, unread. It stops in the same way at a row whose
  first cell is the number zero, though the name in its second cell is that of the frame.
  And a first cell that reads \<open>Product Code\<close> between two blanks, which is not the
  literal label, is taken for the header: the import goes on as with the label itself.
\<close>

theorem lowercase_total_counterexample:
  "\<not> spec_ends_data (lowercase_total_sheet ! 2)
   \<and> action_import_prices True never_raises (example_import_wizard lowercase_total_sheet)
     = Inr (Imported (nothing_imported [Updated_count 0, Blank, Debug_information] 0))
   \<and> \<not> spec_ends_data (zero_code_sheet ! 2)
   \<and> action_import_prices True never_raises (example_import_wizard zero_code_sheet)
     = Inr (Imported (nothing_imported [Updated_count 0, Blank, Debug_information] 0))
   \<and> cell_str (hd (padded_header_sheet ! 1)) \<noteq> ''Product Code''
   \<and> action_import_prices True never_raises (example_import_wizard padded_header_sheet)
     = Inr (Imported priced_result)"
  by code_simp

text \<open>
  C5 (amended). Outside test mode, the import finds the header row as the first of the
  first 30 rows of the sheet \<open>Cost Estimation\<close> whose column A, as text and trimmed,
  is \<open>Product Code\<close>, and raises a user error when there is none. It then works on
  the rows after the header in order, each by the loop body, and stops at the first row
  that is empty, or whose first cell Python takes for false (empty, an empty text, zero,
  the Boolean false, a duration of zero), or whose first cell reads \<open>TOTAL\<close> once
  trimmed and put in capitals by \<open>str.strip\<close> and \<open>str.upper\<close>: the rows from
  there on have no effect. A row that ends the data in the sense of the
  specification ends it in this sense. For a row that is matched and written, the cost
  price is what \<open>float\<close> makes of column P (index 15) and the sale price what it
  makes of column Q (index 16).
\<close>

theorem header_and_data_rows:
  "(iw_excel_file self = Some (Inr wb) \<and> map_of wb ''Cost Estimation'' = Some ws
      \<and> (\<forall>r \<in> set (take 30 ws). \<not> is_header_row r)
     \<longrightarrow> action_import_prices True w self
          = Inl (UserError ''Error processing Excel file: Could not find data header row!''))
   \<and> (iw_excel_file self = Some (Inr wb) \<and> map_of wb ''Cost Estimation'' = Some ws
      \<and> \<not> iw_test_mode self
      \<and> k < 30 \<and> k < length ws \<and> is_header_row (ws ! k) \<and> (\<forall>j<k. \<not> is_header_row (ws ! j))
     \<longrightarrow> action_import_prices True w self
          = (case execute_import w self ws (k + 2) of
               Inl e \<Rightarrow> Inl (UserError (''Error processing Excel file: '' @ error_message e))
             | Inr r \<Rightarrow> Inr (Imported r)))
   \<and> execute_import w self ws d
       = execute_import w self
           (take (d - 1) ws @ takeWhile (\<lambda>r. \<not> ends_data r) (drop (d - 1) ws)) d
   \<and> import_rows w i (row # rest) st
       = (if ends_data row then Inr st
          else case import_row w i row st of
                 Inl e \<Rightarrow> Inl e
               | Inr st' \<Rightarrow> import_rows w (Suc i) rest st')
   \<and> (spec_ends_data row \<longrightarrow> ends_data row)
   \<and> (find_product_line (is_product_line_ids st) (row_product_code row) (row_product_name row)
         = Some l
      \<and> (row_product_code row \<noteq> [] \<or> row_product_name row \<noteq> [])
      \<and> 16 < length row \<and> cell_float (row ! 15) = Some c \<and> cell_float (row ! 16) = Some s
      \<and> w (ppl_id l) \<lparr>pv_cost_price = Some c, pv_sale_price = Some s\<rparr> = None
     \<longrightarrow> (\<exists>st'. import_row w i row st = Inr st'
           \<and> (\<forall>x \<in> set (is_product_line_ids st').
                 ppl_id x = ppl_id l \<longrightarrow> ppl_cost_price x = c \<and> ppl_sale_price x = s)))"
proof (intro conjI impI)
  assume "iw_excel_file self = Some (Inr wb) \<and> map_of wb ''Cost Estimation'' = Some ws
      \<and> (\<forall>r \<in> set (take 30 ws). \<not> is_header_row r)"
  then show "action_import_prices True w self
          = Inl (UserError ''Error processing Excel file: Could not find data header row!'')"
    by (intro action_no_header [of self wb ws]) simp_all
next
  assume "iw_excel_file self = Some (Inr wb) \<and> map_of wb ''Cost Estimation'' = Some ws
      \<and> \<not> iw_test_mode self
      \<and> k < 30 \<and> k < length ws \<and> is_header_row (ws ! k) \<and> (\<forall>j<k. \<not> is_header_row (ws ! j))"
  then show "action_import_prices True w self
          = (case execute_import w self ws (k + 2) of
               Inl e \<Rightarrow> Inl (UserError (''Error processing Excel file: '' @ error_message e))
             | Inr r \<Rightarrow> Inr (Imported r))"
    by (intro action_header [of self wb ws k]) simp_all
next
  show "execute_import w self ws d
       = execute_import w self
           (take (d - 1) ws @ takeWhile (\<lambda>r. \<not> ends_data r) (drop (d - 1) ws)) d"
    by (rule execute_import_takeWhile)
next
  show "import_rows w i (row # rest) st
       = (if ends_data row then Inr st
          else case import_row w i row st of
                 Inl e \<Rightarrow> Inl e
               | Inr st' \<Rightarrow> import_rows w (Suc i) rest st')"
    by (rule import_rows_step)
next
  assume "spec_ends_data row"
  then show "ends_data row" by (rule spec_ends_data_ends)
next
  assume "find_product_line (is_product_line_ids st) (row_product_code row) (row_product_name row)
         = Some l
      \<and> (row_product_code row \<noteq> [] \<or> row_product_name row \<noteq> [])
      \<and> 16 < length row \<and> cell_float (row ! 15) = Some c \<and> cell_float (row ! 16) = Some s
      \<and> w (ppl_id l) \<lparr>pv_cost_price = Some c, pv_sale_price = Some s\<rparr> = None"
  then show "\<exists>st'. import_row w i row st = Inr st'
           \<and> (\<forall>x \<in> set (is_product_line_ids st').
                 ppl_id x = ppl_id l \<longrightarrow> ppl_cost_price x = c \<and> ppl_sale_price x = s)"
    by (intro import_row_prices) simp_all
qed

theorem header_and_data_rows_witness:
  "action_import_prices True never_raises (example_import_wizard [title_row, total_row])
     = Inl (UserError ''Error processing Excel file: Could not find data header row!'')
   \<and> action_import_prices True never_raises (example_import_wizard priced_sheet)
     = Inr (Imported priced_result)
   \<and> ends_data total_row
   \<and> (\<exists>st'. import_row never_raises 3 (priced_sheet ! 2)
          example_state = Inr st'
        \<and> (\<forall>x \<in> set (is_product_line_ids st').
              ppl_id x = 1 \<longrightarrow> ppl_cost_price x = 120 \<and> ppl_sale_price x = 180))"
proof -
  have wb: "iw_excel_file (example_import_wizard ws)
        = Some (Inr [(''Instructions'', []), (''Cost Estimation'', ws)])"
      "map_of [(''Instructions'', []), (''Cost Estimation'', ws)] ''Cost Estimation'' = Some ws"
      "\<not> iw_test_mode (example_import_wizard ws)" for ws
    by (simp_all add: example_import_wizard_def)
  have none: "\<forall>r \<in> set (take 30 [title_row, total_row]). \<not> is_header_row r"
    by code_simp
  have hdr: "(1::nat) < 30" "1 < length priced_sheet" "is_header_row (priced_sheet ! 1)"
      "\<forall>j<1. \<not> is_header_row (priced_sheet ! j)"
    by (simp_all add: priced_sheet_def) code_simp+
  have run: "execute_import never_raises (example_import_wizard priced_sheet) priced_sheet 3
      = Inr priced_result"
    by code_simp
  have spec: "spec_ends_data total_row"
    by code_simp
  have a: "action_import_prices True never_raises (example_import_wizard [title_row, total_row])
     = Inl (UserError ''Error processing Excel file: Could not find data header row!'')"
    using header_and_data_rows [where self = "example_import_wizard [title_row, total_row]"
        and ws = "[title_row, total_row]" and w = never_raises
        and wb = "[(''Instructions'', []), (''Cost Estimation'', [title_row, total_row])]",
        THEN conjunct1] wb none
    by simp
  have b: "action_import_prices True never_raises (example_import_wizard priced_sheet)
     = Inr (Imported priced_result)"
    using header_and_data_rows [where self = "example_import_wizard priced_sheet"
        and ws = priced_sheet and w = never_raises and k = 1
        and wb = "[(''Instructions'', []), (''Cost Estimation'', priced_sheet)]",
        THEN conjunct2, THEN conjunct1] wb hdr run
    by (simp add: numeral_3_eq_3)
  have c: "ends_data total_row"
    using header_and_data_rows [where row = total_row, THEN conjunct2, THEN conjunct2,
        THEN conjunct2, THEN conjunct2, THEN conjunct1] spec
    by simp
  have row: "find_product_line example_lines (row_product_code (priced_sheet ! 2))
        (row_product_name (priced_sheet ! 2)) = Some (example_lines ! 0)"
      "row_product_code (priced_sheet ! 2) \<noteq> []"
      "16 < length (priced_sheet ! 2)"
      "cell_float (priced_sheet ! 2 ! 15) = Some 120"
      "cell_float (priced_sheet ! 2 ! 16) = Some 180"
      "ppl_id (example_lines ! 0) = 1"
    by code_simp+
  have d: "\<exists>st'. import_row never_raises 3 (priced_sheet ! 2)
          example_state = Inr st'
        \<and> (\<forall>x \<in> set (is_product_line_ids st').
              ppl_id x = 1 \<longrightarrow> ppl_cost_price x = 120 \<and> ppl_sale_price x = 180)"
    using header_and_data_rows [where row = "priced_sheet ! 2" and w = never_raises and i = 3
        and l = "example_lines ! 0" and c = 120 and s = 180
        and st = "example_state",
        THEN conjunct2, THEN conjunct2, THEN conjunct2, THEN conjunct2, THEN conjunct2] row
    by (simp add: never_raises_def)
  from a b c d show ?thesis by simp
qed

text \<open>
  C10. When the import returns normally, the product lines are the same lines in the
  same order with product, quantity, weight, sequence and identifier as before; the cost
  price of a line differs from before only if some row of the data matched that line and
  had a column P that parses as a number, the sale price only if such a row had a column
  Q that parses; and a line matched by no row of the data is as it was.
\<close>

theorem import_frame:
  assumes "execute_import w self ws d = Inr r"
  shows "map unpriced (ir_product_line_ids r) = map unpriced (iw_product_line_ids self)
   \<and> (\<forall>k < length (iw_product_line_ids self).
        ppl_cost_price (ir_product_line_ids r ! k) \<noteq> ppl_cost_price (iw_product_line_ids self ! k)
        \<longrightarrow> (\<exists>row \<in> set (takeWhile (\<lambda>r. \<not> ends_data r) (drop (d - 1) ws)).
               map_option ppl_id (find_product_line (iw_product_line_ids self)
                  (row_product_code row) (row_product_name row))
                 = Some (ppl_id (iw_product_line_ids self ! k))
               \<and> read_price row 15 \<noteq> None))
   \<and> (\<forall>k < length (iw_product_line_ids self).
        ppl_sale_price (ir_product_line_ids r ! k) \<noteq> ppl_sale_price (iw_product_line_ids self ! k)
        \<longrightarrow> (\<exists>row \<in> set (takeWhile (\<lambda>r. \<not> ends_data r) (drop (d - 1) ws)).
               map_option ppl_id (find_product_line (iw_product_line_ids self)
                  (row_product_code row) (row_product_name row))
                 = Some (ppl_id (iw_product_line_ids self ! k))
               \<and> read_price row 16 \<noteq> None))
   \<and> (\<forall>k < length (iw_product_line_ids self).
        (\<forall>row \<in> set (takeWhile (\<lambda>r. \<not> ends_data r) (drop (d - 1) ws)).
           map_option ppl_id (find_product_line (iw_product_line_ids self)
              (row_product_code row) (row_product_name row))
             \<noteq> Some (ppl_id (iw_product_line_ids self ! k)))
        \<longrightarrow> ir_product_line_ids r ! k = iw_product_line_ids self ! k)"
proof -
  let ?init = "(initial_state self)"
  from execute_import_state [OF assms] obtain st
    where run: "import_rows w d (drop (d - 1) ws) ?init = Inr st"
      and lines: "ir_product_line_ids r = is_product_line_ids st"
    by auto
  have keys: "map unpriced (ir_product_line_ids r) = map unpriced (iw_product_line_ids self)"
    using import_rows_unpriced [OF run] lines by simp
  have cost: "\<exists>row \<in> set (takeWhile (\<lambda>r. \<not> ends_data r) (drop (d - 1) ws)).
               map_option ppl_id (find_product_line (iw_product_line_ids self)
                  (row_product_code row) (row_product_name row))
                 = Some (ppl_id (iw_product_line_ids self ! k))
               \<and> read_price row 15 \<noteq> None"
    if "k < length (iw_product_line_ids self)"
      and "ppl_cost_price (ir_product_line_ids r ! k) \<noteq> ppl_cost_price (iw_product_line_ids self ! k)"
    for k
    using import_rows_cost [OF run, of k] that lines by simp
  have sale: "\<exists>row \<in> set (takeWhile (\<lambda>r. \<not> ends_data r) (drop (d - 1) ws)).
               map_option ppl_id (find_product_line (iw_product_line_ids self)
                  (row_product_code row) (row_product_name row))
                 = Some (ppl_id (iw_product_line_ids self ! k))
               \<and> read_price row 16 \<noteq> None"
    if "k < length (iw_product_line_ids self)"
      and "ppl_sale_price (ir_product_line_ids r ! k) \<noteq> ppl_sale_price (iw_product_line_ids self ! k)"
    for k
    using import_rows_sale [OF run, of k] that lines by simp
  have same: "ir_product_line_ids r ! k = iw_product_line_ids self ! k"
    if k: "k < length (iw_product_line_ids self)"
      and none: "\<forall>row \<in> set (takeWhile (\<lambda>r. \<not> ends_data r) (drop (d - 1) ws)).
           map_option ppl_id (find_product_line (iw_product_line_ids self)
              (row_product_code row) (row_product_name row))
             \<noteq> Some (ppl_id (iw_product_line_ids self ! k))"
    for k
  proof (rule line_eqI)
    have "length (ir_product_line_ids r) = length (iw_product_line_ids self)"
      using keys by (rule map_eq_imp_length_eq)
    then show "unpriced (ir_product_line_ids r ! k) = unpriced (iw_product_line_ids self ! k)"
      using keys k by (metis nth_map)
    show "ppl_cost_price (ir_product_line_ids r ! k) = ppl_cost_price (iw_product_line_ids self ! k)"
      using cost [OF k] none by blast
    show "ppl_sale_price (ir_product_line_ids r ! k) = ppl_sale_price (iw_product_line_ids self ! k)"
      using sale [OF k] none by blast
  qed
  from keys cost sale same show ?thesis by blast
qed

theorem import_frame_witness:
  "execute_import never_raises (example_import_wizard priced_sheet) priced_sheet 3
     = Inr priced_result
   \<and> map unpriced (ir_product_line_ids priced_result) = map unpriced example_lines
   \<and> ppl_cost_price (ir_product_line_ids priced_result ! 1) = ppl_cost_price (example_lines ! 1)
   \<and> read_price (priced_sheet ! 3) 15 = None"
proof -
  have "read_price (priced_sheet ! 3) 15 = None"
    "ppl_cost_price (ir_product_line_ids priced_result ! 1) = ppl_cost_price (example_lines ! 1)"
    by code_simp+
  then show ?thesis
    using import_frame [OF priced_import] priced_import
    by (simp add: example_import_wizard_def)
qed

section \<open>Automatic material issuing\<close>

lemma issue_assigned_count:
  "issue_assigned orm move c w = (Inr c', w') \<Longrightarrow> c' = c \<or> c' = Suc c"
  by (auto simp: issue_assigned_def and_then_def returns_def read_field_def
        split: prod.splits sum.splits if_splits)

lemma force_issue_count:
  "force_issue orm move c w = (Inr c', w') \<Longrightarrow> c' = c \<or> c' = Suc c"
  by (auto simp: force_issue_def and_then_def returns_def read_field_def
        split: prod.splits sum.splits if_splits)

lemma try_except_returns:
  "\<exists>x w'. try_except m (\<lambda>e. returns c) w = (Inr x, w')"
  by (auto simp: try_except_def returns_def split: prod.splits sum.splits)

lemma try_except_count:
  assumes "\<And>c' w'. m w = (Inr c', w') \<Longrightarrow> c' = c \<or> c' = Suc c"
  shows "\<exists>c' w'. try_except m (\<lambda>e. returns c) w = (Inr c', w') \<and> (c' = c \<or> c' = Suc c)"
  using assms
  by (cases "m w") (auto simp: try_except_def returns_def split: sum.splits)

lemma issue_move_inner_count:
  assumes "(and_then (read_field (\<lambda>w. sw_move w move))
          (\<lambda>m. if mv_state m \<in> {Move_done, Move_cancel} then returns c
               else
                 let product = mv_product_id m;
                     required_qty = mv_product_uom_qty m;
                     available_qty = qty_available product
                 in and_then
                      (if mv_state m \<noteq> Move_assigned
                       then try_except (move_action_assign orm move) (\<lambda>e. returns ())
                       else returns ())
                      (\<lambda>_. and_then (read_field (\<lambda>w. mv_state (sw_move w move)))
                             (\<lambda>state.
                                if state = Move_assigned
                                then try_except (issue_assigned orm move c)
                                       (\<lambda>e. returns c)
                                else if available_qty \<ge> required_qty
                                then try_except (force_issue orm move c)
                                       (\<lambda>e. returns c)
                                else returns c)))) w = (Inr c', w')"
  shows "c' = c \<or> c' = Suc c"
proof -
  have a: "x = c \<or> x = Suc c" if "try_except (issue_assigned orm move c) (\<lambda>e. returns c) v = (Inr x, v')" for x v v'
    using try_except_count [of "issue_assigned orm move c" v c] issue_assigned_count that by fastforce
  have b: "x = c \<or> x = Suc c" if "try_except (force_issue orm move c) (\<lambda>e. returns c) v = (Inr x, v')" for x v v'
    using try_except_count [of "force_issue orm move c" v c] force_issue_count that by fastforce
  show ?thesis
    using assms a b
    by (auto simp: and_then_def returns_def read_field_def Let_def
        split: prod.splits sum.splits if_splits)
qed

lemma issue_move_count:
  "\<exists>c' w'. issue_move orm move c w = (Inr c', w') \<and> (c' = c \<or> c' = Suc c)"
  unfolding issue_move_def
  by (rule try_except_count) (rule issue_move_inner_count)

lemma raw_moves_loop_count:
  "\<exists>c' w'. raw_moves_loop orm moves c w = (Inr c', w') \<and> c \<le> c' \<and> c' \<le> c + length moves"
proof (induction moves arbitrary: c w)
  case Nil
  show ?case by (simp add: returns_def)
next
  case (Cons move rest)
  from issue_move_count [of orm move c w] obtain c1 w1
    where 1: "issue_move orm move c w = (Inr c1, w1)" and c1: "c1 = c \<or> c1 = Suc c"
    by blast
  from Cons.IH [of c1 w1] obtain c' w'
    where 2: "raw_moves_loop orm rest c1 w1 = (Inr c', w')" and c': "c1 \<le> c'" "c' \<le> c1 + length rest"
    by blast
  from 1 2 have "raw_moves_loop orm (move # rest) c w = (Inr c', w')"
    by (simp add: and_then_def)
  with c1 c' show ?case by auto
qed

lemma confirm_and_assign_returns:
  "\<exists>b w'. confirm_and_assign orm w = (Inr b, w')"
  by (auto simp: confirm_and_assign_def and_then_def returns_def read_field_def try_except_def
        split: prod.splits sum.splits)

lemma confirm_fails:
  assumes "sw_state w = Mo_draft" and "action_confirm orm w = (Inl e, w')"
  shows "confirm_and_assign orm w = (Inr False, w')"
  using assms
  by (simp add: confirm_and_assign_def and_then_def returns_def read_field_def try_except_def)

lemma auto_issue_false:
  "confirm_and_assign orm w = (Inr False, w1) \<Longrightarrow> auto_issue_materials orm w = (Inr (0, 0), w1)"
  by (simp add: auto_issue_materials_def and_then_def returns_def)

lemma auto_issue_true:
  assumes "confirm_and_assign orm w = (Inr True, w1)"
  shows "\<exists>issued w'. auto_issue_materials orm w = (Inr (issued, length (pending_raw_moves w1)), w')
     \<and> issued \<le> length (pending_raw_moves w1)"
proof (cases "pending_raw_moves w1 = []")
  case True
  with assms show ?thesis
    by (simp add: auto_issue_materials_def and_then_def returns_def read_field_def)
next
  case False
  from raw_moves_loop_count [of orm "pending_raw_moves w1" 0 w1] obtain c' w'
    where "raw_moves_loop orm (pending_raw_moves w1) 0 w1 = (Inr c', w')"
      and "c' \<le> length (pending_raw_moves w1)"
    by auto
  with assms False show ?thesis
    by (simp add: auto_issue_materials_def and_then_def returns_def read_field_def Let_def)
qed

text \<open>
  C8. Whatever the methods of the stock application do, and whichever of them raise,
  \<open>_auto_issue_materials\<close> returns normally with a pair of counts, issued and total,
  with issued at most total. The steps before the loop return normally too: when they
  go through, total is the number of raw moves of the order that are neither done nor
  cancelled at that moment; when a draft order cannot be confirmed the result is
  \<open>(0, 0)\<close>.
\<close>

theorem auto_issue_materials_never_raises:
  "(\<exists>issued total w'. auto_issue_materials orm w = (Inr (issued, total), w') \<and> issued \<le> total)
   \<and> (\<exists>confirmed w1. confirm_and_assign orm w = (Inr confirmed, w1)
        \<and> (if confirmed
            then \<exists>issued w'. auto_issue_materials orm w
                   = (Inr (issued, length (pending_raw_moves w1)), w')
                   \<and> issued \<le> length (pending_raw_moves w1)
            else auto_issue_materials orm w = (Inr (0, 0), w1)))
   \<and> (sw_state w = Mo_draft \<and> action_confirm orm w = (Inl e, v)
      \<longrightarrow> auto_issue_materials orm w = (Inr (0, 0), v))"
proof -
  from confirm_and_assign_returns [of orm w] obtain confirmed w1
    where ca: "confirm_and_assign orm w = (Inr confirmed, w1)"
    by blast
  have second: "if confirmed
      then \<exists>issued w'. auto_issue_materials orm w
             = (Inr (issued, length (pending_raw_moves w1)), w')
             \<and> issued \<le> length (pending_raw_moves w1)
      else auto_issue_materials orm w = (Inr (0, 0), w1)"
    using ca auto_issue_true [of orm w w1] auto_issue_false [of orm w w1]
    by (cases confirmed) simp_all
  then have first: "\<exists>issued total w'. auto_issue_materials orm w = (Inr (issued, total), w')
      \<and> issued \<le> total"
    by (cases confirmed) auto
  have third: "auto_issue_materials orm w = (Inr (0, 0), v)"
    if "sw_state w = Mo_draft \<and> action_confirm orm w = (Inl e, v)"
    using that confirm_fails [of w orm e v] auto_issue_false [of orm w v] by simp
  from ca second have "\<exists>confirmed w1. confirm_and_assign orm w = (Inr confirmed, w1)
        \<and> (if confirmed
            then \<exists>issued w'. auto_issue_materials orm w
                   = (Inr (issued, length (pending_raw_moves w1)), w')
                   \<and> issued \<le> length (pending_raw_moves w1)
            else auto_issue_materials orm w = (Inr (0, 0), w1))"
    by (cases confirmed) auto
  with first third show ?thesis by blast
qed

lemma example_issue: "fst (auto_issue_materials example_platform example_world) = Inr (1, 2)"
  by code_simp

theorem auto_issue_materials_never_raises_witness:
  "fst (auto_issue_materials failing_platform example_world) = Inr (0, 0)
   \<and> fst (auto_issue_materials example_platform example_world) = Inr (1, 2)"
proof -
  have "sw_state example_world = Mo_draft"
    by (simp add: example_world_def)
  moreover have "action_confirm failing_platform example_world = (Inl ''No BOM'', example_world)"
    by (simp add: failing_platform_def)
  ultimately have "auto_issue_materials failing_platform example_world
      = (Inr (0, 0), example_world)"
    using auto_issue_materials_never_raises [of failing_platform example_world "''No BOM''"
        example_world]
    by simp
  then show ?thesis
    by (simp add: example_issue)
qed

end
